theory Spec2Isabelle
  imports Main "HOL-Library.Word"
begin

section \<open>Return codes of the transport library\<close>

text \<open>
  \<^verbatim>\<open>remote.c\<close> and the refspec binding talk to libgit2 through \<^verbatim>\<open>int\<close> return codes.
  The codes are libgit2's: 0 on success and a negative number for every error.
\<close>

definition GIT_OK :: int where
  "GIT_OK = 0"

definition GIT_ERROR :: int where
  "GIT_ERROR = - 1"

definition GIT_ENOTFOUND :: int where
  "GIT_ENOTFOUND = - 3"

definition GIT_EBUFS :: int where
  "GIT_EBUFS = - 6"

definition GIT_EUSER :: int where
  "GIT_EUSER = - 7"

section \<open>The host side: exceptions and fallible calls\<close>

text \<open>
  A function of the binding returns a pointer (\<^verbatim>\<open>NULL\<close> is \<open>None\<close>) and leaves the
  interpreter's pending exception behind. \<open>ErrorSet e\<close> is the exception raised by
  \<^verbatim>\<open>Error_set(e)\<close> for the library code \<open>e\<close>, and \<open>ErrorSetExc x\<close> the one raised by
  \<^verbatim>\<open>Error_set_exc(x)\<close> for the host exception class \<open>x\<close>.
\<close>

datatype py_exc =
    TypeError
  | MemoryError
  | ValueError
  | UnicodeDecodeError
  | SystemError
  | ErrorSet int
  | ErrorSetExc py_exc

text \<open>
  Modelled from the spec: the conversions \<^verbatim>\<open>to_path\<close>, \<^verbatim>\<open>to_encoding\<close>, \<^verbatim>\<open>to_unicode\<close>
  and \<^verbatim>\<open>py_path_to_c_str\<close> are declared in \<^verbatim>\<open>utils.h\<close>, which is not among the sources,
  and the object constructors are the interpreter's. The spec (sections 4.4 and 7) has
  the marshalling of a value to the caller fail for a host-side reason such as allocation.
  Every such call takes its outcome from a script: the head of \<open>faults\<close> says whether the
  next call succeeds (\<open>None\<close>) or fails raising an exception. An exhausted script means
  success.
\<close>

record host =
  pending :: "py_exc option"
  faults :: "py_exc option list"

definition host_call :: "host \<Rightarrow> bool \<times> host" where
  "host_call h =
     (case faults h of
        [] \<Rightarrow> (True, h)
      | None # fs \<Rightarrow> (True, h\<lparr>faults := fs\<rparr>)
      | Some e # fs \<Rightarrow> (False, h\<lparr>pending := Some e, faults := fs\<rparr>))"

text \<open>
  Modelled from the spec: \<^verbatim>\<open>Error_set\<close> is declared in \<^verbatim>\<open>error.h\<close>, which is not among
  the sources. The spec (section 7) has every library error surface to the caller as the
  error of its code; the exception replaces whatever was pending.
\<close>

definition Error_set :: "int \<Rightarrow> host \<Rightarrow> host" where
  "Error_set e h = h\<lparr>pending := Some (ErrorSet e)\<rparr>"

text \<open>
  Modelled from the spec: \<^verbatim>\<open>Error_set_exc\<close> is declared in \<^verbatim>\<open>error.h\<close>, which is not
  among the sources. It raises the error of the library's last failure under the given
  host exception class (spec section 7: a malformed refspec string is an invalid
  argument), replacing whatever was pending.
\<close>

definition Error_set_exc :: "py_exc \<Rightarrow> host \<Rightarrow> host" where
  "Error_set_exc x h = h\<lparr>pending := Some (ErrorSetExc x)\<rparr>"

section \<open>Calls into the library, as a trace\<close>

datatype direction = GIT_DIRECTION_FETCH | GIT_DIRECTION_PUSH

datatype lib_call =
    Connect direction
  | Download
  | Stats
  | UpdateTips
  | Disconnect
  | PushNew
  | AddRefspec string
  | PushFinish
  | UnpackOk
  | StatusForeach
  | PushUpdateTips
  | PushFree

text \<open>What a method of the binding leaves behind when it returns.\<close>

record 'a outcome =
  lib_calls :: "lib_call list"
  returned :: "'a option"
  raised :: "py_exc option"

section \<open>Remote.fetch\<close>

text \<open>
  \<^verbatim>\<open>git_transfer_progress\<close>: two \<^verbatim>\<open>unsigned int\<close> counters and a \<^verbatim>\<open>size_t\<close>
  (64 bits on the LP64 targets the binding is built for).
\<close>

record git_transfer_progress =
  indexed_objects :: "32 word"
  received_objects :: "32 word"
  received_bytes :: "64 word"

text \<open>
  The dictionary \<^verbatim>\<open>Py_BuildValue("{s:I,s:I,s:n}", ...)\<close> builds: format \<^verbatim>\<open>I\<close> reads an
  unsigned int, format \<^verbatim>\<open>n\<close> reads a \<^verbatim>\<open>Py_ssize_t\<close>, which is signed.
\<close>

record py_stats =
  py_indexed_objects :: int
  py_received_objects :: int
  py_received_bytes :: int

definition build_stats :: "git_transfer_progress \<Rightarrow> py_stats" where
  "build_stats st =
     \<lparr>py_indexed_objects = uint (indexed_objects st),
      py_received_objects = uint (received_objects st),
      py_received_bytes = sint (received_bytes st)\<rparr>"

text \<open>What the library answers during one fetch.\<close>

record fetch_env =
  fe_connect :: int
  fe_download :: int
  fe_stats :: git_transfer_progress
  fe_update_tips :: int

definition fetch_return :: "lib_call list \<Rightarrow> int \<Rightarrow> py_stats option \<Rightarrow> host \<Rightarrow> py_stats outcome" where
  "fetch_return tr err py_st h =
     (if err < 0
      then \<lparr>lib_calls = tr, returned = None, raised = pending (Error_set err h)\<rparr>
      else \<lparr>lib_calls = tr, returned = py_st, raised = pending h\<rparr>)"

definition Remote_fetch :: "fetch_env \<Rightarrow> py_exc option list \<Rightarrow> py_stats outcome" where
  "Remote_fetch env fs =
     (let h = \<lparr>pending = None, faults = fs\<rparr>;
          err = fe_connect env;
          tr = [Connect GIT_DIRECTION_FETCH]
      in if err = GIT_OK then
           (let err = fe_download env;
                tr = tr @ [Download]
            in if err = GIT_OK then
                 (let (built, h) = host_call h;
                      py_st = (if built then Some (build_stats (fe_stats env)) else None);
                      err = fe_update_tips env
                  in fetch_return (tr @ [Stats, UpdateTips, Disconnect]) err py_st h)
               else fetch_return (tr @ [Disconnect]) err None h)
         else fetch_return tr err None h)"

section \<open>Remote.push\<close>

text \<open>The arguments the interpreter hands over, as far as the binding looks at them.\<close>

datatype py_obj =
    PyString string
  | PyList "py_obj list"
  | PyTuple "py_obj list"
  | PyInt int
  | PyNone

text \<open>
  \<^verbatim>\<open>PySequence_Fast\<close>: a list or a tuple is returned as it is; a string is iterated into
  a new list of its characters (a host call that may fail); anything that cannot be
  iterated raises \<^verbatim>\<open>TypeError\<close>.
\<close>

definition PySequence_Fast :: "py_obj \<Rightarrow> host \<Rightarrow> py_obj list option \<times> host" where
  "PySequence_Fast ob h =
     (case ob of
        PyList xs \<Rightarrow> (Some xs, h)
      | PyTuple xs \<Rightarrow> (Some xs, h)
      | PyString s \<Rightarrow>
          (let (built, h') = host_call h
           in if built then (Some (map (\<lambda>c. PyString [c]) s), h') else (None, h'))
      | PyInt n \<Rightarrow> (None, h\<lparr>pending := Some TypeError\<rparr>)
      | PyNone \<Rightarrow> (None, h\<lparr>pending := Some TypeError\<rparr>))"

text \<open>
  \<^verbatim>\<open>PyString_AsString\<close>: the bytes of a string object, or \<^verbatim>\<open>NULL\<close> with \<^verbatim>\<open>TypeError\<close> set.
  The bytes are handed to the library as they are; where it stops reading them is the
  library's business and part of its answer.
\<close>

definition PyString_AsString :: "py_obj \<Rightarrow> host \<Rightarrow> string option \<times> host" where
  "PyString_AsString ob h =
     (case ob of
        PyString s \<Rightarrow> (Some s, h)
      | _ \<Rightarrow> (None, h\<lparr>pending := Some TypeError\<rparr>))"

text \<open>
  What the library answers during one push. \<open>pe_add_refspec\<close> is the answer of
  \<^verbatim>\<open>git_push_add_refspec\<close> to the refspec at an index; \<open>pe_status\<close> is the status list the
  server reported, one entry per reference, with the message absent for a reference that
  was accepted without comment.
\<close>

record push_env =
  pe_connect :: int
  pe_push_new :: int
  pe_add_refspec :: "nat \<Rightarrow> string \<Rightarrow> int"
  pe_finish :: int
  pe_unpack_ok :: int
  pe_status :: "(string \<times> string option) list"
  pe_update_tips :: int

text \<open>The Python list \<^verbatim>\<open>py_results\<close>: the report under construction.\<close>

type_synonym report = "(string \<times> string) list"

text \<open>
  \<^verbatim>\<open>push_foreach_cb(ref, msg, data)\<close>. \<^verbatim>\<open>to_path\<close> and \<^verbatim>\<open>to_encoding\<close> are both called
  before either result is tested; \<^verbatim>\<open>PyTuple_New\<close> follows; the result of
  \<^verbatim>\<open>PyList_Append\<close> is not looked at.
\<close>

definition push_foreach_cb :: "string \<Rightarrow> string option \<Rightarrow> report \<times> host \<Rightarrow> int \<times> report \<times> host" where
  "push_foreach_cb ref msg d =
     (case msg of
        None \<Rightarrow> (GIT_OK, d)
      | Some m \<Rightarrow>
          (let (data, h) = d;
               (py_ref_ok, h) = host_call h;
               (py_msg_ok, h) = host_call h
           in if \<not> py_ref_ok \<or> \<not> py_msg_ok then (GIT_ERROR, data, h)
              else
                (let (tuple_ok, h) = host_call h
                 in if \<not> tuple_ok then (GIT_ERROR, data, h)
                    else
                      (let (appended, h) = host_call h
                       in (GIT_OK, (if appended then data @ [(ref, m)] else data), h)))))"

text \<open>
  Modelled from the spec: \<^verbatim>\<open>git_push_status_foreach\<close> belongs to libgit2 and is not among
  the sources. It calls the callback once per reported reference, in the order of the
  status list (spec section 4.4; the comment in \<^verbatim>\<open>push_foreach_cb\<close> says the same), and
  stops at the first callback that fails (a negative result); the iteration then answers
  \<^verbatim>\<open>GIT_EUSER\<close>, the code that the end of \<^verbatim>\<open>Remote_push\<close> tests for so as to keep the
  exception set inside the callback.
\<close>

fun git_push_status_foreach ::
  "(string \<times> string option) list \<Rightarrow> (string \<Rightarrow> string option \<Rightarrow> 'd \<Rightarrow> int \<times> 'd) \<Rightarrow> 'd \<Rightarrow> int \<times> 'd" where
  "git_push_status_foreach [] cb d = (GIT_OK, d)"
| "git_push_status_foreach ((ref, msg) # rest) cb d =
     (let (rc, d') = cb ref msg d
      in if rc < 0 then (GIT_EUSER, d') else git_push_status_foreach rest cb d')"

text \<open>
  The loop \<^verbatim>\<open>for (idx = 0; err == GIT_OK && idx < len; idx++)\<close> over the refspecs:
  the items still to visit, the index of the first of them, and the loop's variables.
\<close>

fun add_refspecs ::
  "push_env \<Rightarrow> nat \<Rightarrow> py_obj list \<Rightarrow> int \<Rightarrow> lib_call list \<Rightarrow> host \<Rightarrow> int \<times> lib_call list \<times> host" where
  "add_refspecs env idx [] err tr h = (err, tr, h)"
| "add_refspecs env idx (py_refspec # rest) err tr h =
     (if err \<noteq> GIT_OK then (err, tr, h)
      else
        (case PyString_AsString py_refspec h of
           (Some c_refspec, h') \<Rightarrow>
             add_refspecs env (Suc idx) rest (pe_add_refspec env idx c_refspec)
               (tr @ [AddRefspec c_refspec]) h'
         | (None, h') \<Rightarrow> add_refspecs env (Suc idx) rest GIT_EUSER tr h'))"

text \<open>
  The block guarded by \<^verbatim>\<open>err == GIT_OK\<close> after the loop: finish, the unpack test, the new
  list, the status iteration and the tip update. It yields \<^verbatim>\<open>err\<close>, the trace, the host
  and \<^verbatim>\<open>py_results\<close>.
\<close>

definition push_finish ::
  "push_env \<Rightarrow> lib_call list \<Rightarrow> host \<Rightarrow> int \<times> lib_call list \<times> host \<times> report option" where
  "push_finish env tr h =
     (let err = pe_finish env;
          tr = tr @ [PushFinish]
      in if err \<noteq> GIT_OK then (err, tr, h, None)
         else if pe_unpack_ok env = 0 then (err, tr @ [UnpackOk], h, None)
         else
           (let tr = tr @ [UnpackOk];
                (list_ok, h) = host_call h
            in if \<not> list_ok then (err, tr, h, None)
               else
                 (let (err, data, h) = git_push_status_foreach (pe_status env) push_foreach_cb ([], h);
                      tr = tr @ [StatusForeach]
                  in if err = GIT_OK then (pe_update_tips env, tr @ [PushUpdateTips], h, Some data)
                     else (err, tr, h, Some data))))"

text \<open>The tail of \<^verbatim>\<open>Remote_push\<close>: the three-way test on \<^verbatim>\<open>err\<close>.\<close>

definition push_return :: "lib_call list \<Rightarrow> int \<Rightarrow> report option \<Rightarrow> host \<Rightarrow> report outcome" where
  "push_return tr err py_results h =
     (if err = GIT_EUSER then \<lparr>lib_calls = tr, returned = None, raised = pending h\<rparr>
      else if err < GIT_OK
      then \<lparr>lib_calls = tr, returned = None, raised = pending (Error_set err h)\<rparr>
      else \<lparr>lib_calls = tr, returned = py_results, raised = pending h\<rparr>)"

text \<open>
  \<^verbatim>\<open>Remote_push(self, args)\<close>. \<^verbatim>\<open>PyArg_ParseTuple(args, "O", ...)\<close> wants exactly one
  argument. The diagnostic lines written with \<^verbatim>\<open>PySys_WriteStdout\<close>, and the
  \<^verbatim>\<open>giterr_last\<close> that feeds one of them, change neither \<^verbatim>\<open>err\<close> nor the other calls
  and are left out of the trace.
\<close>

definition Remote_push :: "push_env \<Rightarrow> py_exc option list \<Rightarrow> py_obj list \<Rightarrow> report outcome" where
  "Remote_push env fs args =
     (let h = \<lparr>pending = None, faults = fs\<rparr>
      in case args of
           [ob] \<Rightarrow>
             (case PySequence_Fast ob h of
                (None, h) \<Rightarrow> \<lparr>lib_calls = [], returned = None, raised = pending h\<rparr>
              | (Some py_refspecs, h) \<Rightarrow>
                  (let err = pe_connect env;
                       tr = [Connect GIT_DIRECTION_PUSH]
                   in if err = GIT_OK then
                        (let err = pe_push_new env;
                             tr = tr @ [PushNew]
                         in if err = GIT_OK then
                              (let (err, tr, h) = add_refspecs env 0 py_refspecs err tr h;
                                   (err, tr, h, py_results) =
                                     (if err = GIT_OK then push_finish env tr h
                                      else (err, tr, h, None))
                               in push_return (tr @ [PushFree, Disconnect]) err py_results h)
                            else push_return (tr @ [Disconnect]) err None h)
                      else push_return tr err None h))
         | _ \<Rightarrow> \<lparr>lib_calls = [], returned = None, raised = Some TypeError\<rparr>)"

section \<open>Refspecs: the library's side\<close>

text \<open>
  Modelled from the spec: \<^verbatim>\<open>git_refspec\<close> is the library's type and is not declared in
  the sources. The spec (section 3) gives a refspec a source pattern, a destination
  pattern, a force flag, a direction and its string form.
\<close>

record git_refspec =
  rs_string :: string
  rs_src :: string
  rs_dst :: string
  rs_force :: bool
  rs_push :: bool

text \<open>
  Modelled from the spec: the refspec parser belongs to libgit2 and is not among the
  sources. The spec (section 3) gives a refspec the canonical string form
  \<^verbatim>\<open>[+]source:destination\<close>: an optional \<^verbatim>\<open>+\<close> for the force flag, then the two patterns
  separated by the one colon of the string. The parser keeps the string it was given and
  puts no further condition on the patterns.
\<close>

definition git_refspec_parse :: "bool \<Rightarrow> string \<Rightarrow> git_refspec option" where
  "git_refspec_parse is_fetch input =
     (let force = (case input of [] \<Rightarrow> False | c # _ \<Rightarrow> c = CHR ''+'');
          body = (if force then tl input else input)
      in if count_list body CHR '':'' \<noteq> 1 then None
         else Some \<lparr>rs_string = input,
                    rs_src = takeWhile (\<lambda>c. c \<noteq> CHR '':'') body,
                    rs_dst = tl (dropWhile (\<lambda>c. c \<noteq> CHR '':'') body),
                    rs_force = force,
                    rs_push = (\<not> is_fetch)\<rparr>)"

text \<open>
  Modelled from the spec: \<^verbatim>\<open>git_remote\<close> is the library's type and is not declared in the
  sources. The spec (section 3) gives a remote an optional single fetch refspec, the one
  part of the handle that the fetchspec accessors touch.
\<close>

record git_remote =
  remote_fetch :: "git_refspec option"

text \<open>
  Modelled from the spec: \<^verbatim>\<open>git_remote_set_fetchspec\<close> is libgit2's. It parses the string as
  a fetch refspec and, when the parser accepts it, replaces the remote's fetch refspec.
\<close>

definition git_remote_set_fetchspec :: "git_remote \<Rightarrow> string \<Rightarrow> int \<times> git_remote" where
  "git_remote_set_fetchspec remote spec =
     (case git_refspec_parse True spec of
        None \<Rightarrow> (GIT_ERROR, remote)
      | Some r \<Rightarrow> (GIT_OK, remote\<lparr>remote_fetch := Some r\<rparr>))"

text \<open>
  Modelled from the spec: the pattern matching behind \<^verbatim>\<open>git_refspec_transform\<close> and
  \<^verbatim>\<open>git_refspec_rtransform\<close> is libgit2's and not among the sources. The spec (section
  4.1): a pattern uses a single \<^verbatim>\<open>*\<close> wildcard. \<open>star_split\<close> cuts a pattern at its
  wildcard into what stands before and what stands after it.
\<close>

definition star_split :: "string \<Rightarrow> (string \<times> string) option" where
  "star_split pat =
     (if CHR ''*'' \<in> set pat
      then Some (takeWhile (\<lambda>c. c \<noteq> CHR ''*'') pat, tl (dropWhile (\<lambda>c. c \<noteq> CHR ''*'') pat))
      else None)"

text \<open>
  Modelled from the spec: what the wildcard of a pattern captures in a name (spec section
  4.1), if the name has the shape of the pattern: the pattern's text before the wildcard,
  anything, the pattern's text after it. A pattern without a wildcard has the shape of
  itself only and captures nothing.
\<close>

definition capture :: "string \<Rightarrow> string \<Rightarrow> string option" where
  "capture pat name =
     (case star_split pat of
        None \<Rightarrow> (if name = pat then Some [] else None)
      | Some (pre, suf) \<Rightarrow>
          (if length pre + length suf \<le> length name \<and> take (length pre) name = pre \<and>
              drop (length name - length suf) name = suf
           then Some (take (length name - length pre - length suf) (drop (length pre) name))
           else None))"

text \<open>
  Modelled from the spec: the capture put in the place of a pattern's wildcard (spec section
  4.1); a pattern without a wildcard stands for itself.
\<close>

definition substitute :: "string \<Rightarrow> string \<Rightarrow> string" where
  "substitute pat cap =
     (case star_split pat of
        None \<Rightarrow> pat
      | Some (pre, suf) \<Rightarrow> pre @ cap @ suf)"

text \<open>
  Modelled from the spec: the transform of the library (spec section 4.1) substitutes the
  wildcard capture from one side into the other side's pattern and reports a name that
  does not have the shape of the pattern it is matched against. The result and its
  terminator go to a buffer of \<open>outlen\<close> bytes; a result that does not fit is reported
  as \<^verbatim>\<open>GIT_EBUFS\<close> and nothing is written.
\<close>

definition refspec_transform_internal :: "nat \<Rightarrow> string \<Rightarrow> string \<Rightarrow> string \<Rightarrow> int \<times> string" where
  "refspec_transform_internal outlen from to name =
     (case capture from name of
        None \<Rightarrow> (GIT_ERROR, [])
      | Some cap \<Rightarrow>
          (let res = substitute to cap
           in if outlen \<le> length res then (GIT_EBUFS, []) else (GIT_OK, res)))"

text \<open>
  Modelled from the spec: \<^verbatim>\<open>git_refspec_transform\<close> is libgit2's; it matches the name
  against the source pattern and fills the destination pattern (spec section 4.1).
\<close>

definition git_refspec_transform :: "nat \<Rightarrow> git_refspec \<Rightarrow> string \<Rightarrow> int \<times> string" where
  "git_refspec_transform outlen spec name =
     refspec_transform_internal outlen (rs_src spec) (rs_dst spec) name"

text \<open>
  Modelled from the spec: \<^verbatim>\<open>git_refspec_rtransform\<close> is libgit2's; it is the inverse
  direction, matching against the destination pattern and filling the source pattern
  (spec section 4.1).
\<close>

definition git_refspec_rtransform :: "nat \<Rightarrow> git_refspec \<Rightarrow> string \<Rightarrow> int \<times> string" where
  "git_refspec_rtransform outlen spec name =
     refspec_transform_internal outlen (rs_dst spec) (rs_src spec) name"

section \<open>Strings between the host and C\<close>

text \<open>A C string ends at its first NUL byte.\<close>

definition c_str :: "string \<Rightarrow> string" where
  "c_str s = takeWhile (\<lambda>c. c \<noteq> CHR 0x00) s"

text \<open>
  Modelled from the spec: \<^verbatim>\<open>py_path_to_c_str\<close> is declared in \<^verbatim>\<open>utils.h\<close>, which is not
  among the sources. It marshals a string object into a fresh C string, which can fail for
  a host-side reason (spec section 7), and raises \<^verbatim>\<open>TypeError\<close> for any other object.
\<close>

definition py_path_to_c_str :: "py_obj \<Rightarrow> host \<Rightarrow> string option \<times> host" where
  "py_path_to_c_str ob h =
     (case ob of
        PyString s \<Rightarrow>
          (let (copied, h') = host_call h
           in if copied then (Some (c_str s), h') else (None, h'))
      | _ \<Rightarrow> (None, h\<lparr>pending := Some TypeError\<rparr>))"

text \<open>
  Modelled from the spec: \<^verbatim>\<open>to_unicode\<close> is declared in \<^verbatim>\<open>utils.h\<close>, which is not among
  the sources. It marshals a C string into a new string object, which can fail for a
  host-side reason (spec section 7).
\<close>

definition to_unicode :: "string \<Rightarrow> host \<Rightarrow> string option \<times> host" where
  "to_unicode s h =
     (let (decoded, h') = host_call h
      in if decoded then (Some s, h') else (None, h'))"

text \<open>\<^verbatim>\<open>calloc\<close>: it takes its outcome from the script too, but raises nothing when it fails.\<close>

definition calloc :: "host \<Rightarrow> bool \<times> host" where
  "calloc h =
     (case faults h of
        [] \<Rightarrow> (True, h)
      | None # fs \<Rightarrow> (True, h\<lparr>faults := fs\<rparr>)
      | Some e # fs \<Rightarrow> (False, h\<lparr>faults := fs\<rparr>))"

section \<open>The Refspec methods\<close>

text \<open>
  What \<^verbatim>\<open>Refspec_transform\<close> and \<^verbatim>\<open>Refspec_rtransform\<close> leave behind: the size handed to
  \<^verbatim>\<open>calloc\<close> (if the method got that far), the number of bytes the library wrote into
  the buffer, the string object returned and the pending exception. The source does not
  test the result of \<^verbatim>\<open>calloc\<close>; with a \<^verbatim>\<open>NULL\<close> buffer the library has nowhere to write
  and the process is lost, which \<open>tf_crashed\<close> records.
\<close>

record transform_outcome =
  tf_outlen :: "nat option"
  tf_written :: nat
  tf_crashed :: bool
  tf_returned :: "string option"
  tf_raised :: "py_exc option"

definition transform_body ::
  "(nat \<Rightarrow> git_refspec \<Rightarrow> string \<Rightarrow> int \<times> string) \<Rightarrow> string \<Rightarrow> git_refspec \<Rightarrow> py_obj \<Rightarrow> host \<Rightarrow> transform_outcome" where
  "transform_body lib_transform template refspec py_name h =
     (case py_path_to_c_str py_name h of
        (None, h) \<Rightarrow>
          \<lparr>tf_outlen = None, tf_written = 0, tf_crashed = False, tf_returned = None,
           tf_raised = pending h\<rparr>
      | (Some name, h) \<Rightarrow>
          (let outlen = length template + length name + 1;
               (allocated, h) = calloc h
           in if \<not> allocated then
                \<lparr>tf_outlen = Some outlen, tf_written = 0, tf_crashed = True, tf_returned = None,
                 tf_raised = pending h\<rparr>
              else
                (let (err, out) = lib_transform outlen refspec name
                 in if err \<noteq> 0 then
                      \<lparr>tf_outlen = Some outlen, tf_written = 0, tf_crashed = False,
                       tf_returned = None, tf_raised = pending (Error_set err h)\<rparr>
                    else
                      (let (py_out, h) = to_unicode out h
                       in \<lparr>tf_outlen = Some outlen, tf_written = length out + 1,
                           tf_crashed = False, tf_returned = py_out, tf_raised = pending h\<rparr>))))"

text \<open>
  \<^verbatim>\<open>Refspec_transform\<close> sizes its buffer against the destination pattern and calls
  \<^verbatim>\<open>git_refspec_transform\<close>; \<^verbatim>\<open>Refspec_rtransform\<close> is the same text with the source
  pattern and \<^verbatim>\<open>git_refspec_rtransform\<close>. The library call is the first argument of
  each, so that the buffer sizes can be stated for whatever the library does.
\<close>

definition Refspec_transform ::
  "(nat \<Rightarrow> git_refspec \<Rightarrow> string \<Rightarrow> int \<times> string) \<Rightarrow> git_refspec \<Rightarrow> py_obj \<Rightarrow> host \<Rightarrow> transform_outcome" where
  "Refspec_transform lib_transform refspec py_name h =
     transform_body lib_transform (rs_dst refspec) refspec py_name h"

definition Refspec_rtransform ::
  "(nat \<Rightarrow> git_refspec \<Rightarrow> string \<Rightarrow> int \<times> string) \<Rightarrow> git_refspec \<Rightarrow> py_obj \<Rightarrow> host \<Rightarrow> transform_outcome" where
  "Refspec_rtransform lib_rtransform refspec py_name h =
     transform_body lib_rtransform (rs_src refspec) refspec py_name h"

text \<open>
  The accessors \<^verbatim>\<open>Refspec_is_forced__get__\<close>, \<^verbatim>\<open>Refspec_direction__get__\<close>,
  \<^verbatim>\<open>Refspec_destination__get__\<close>, \<^verbatim>\<open>Refspec_source__get__\<close> and \<^verbatim>\<open>Refspec_string__get__\<close>
  (a name cannot hold two underscores in a row here): each reads one field through the
  library and hands it to the host.
\<close>

definition Refspec_is_forced_get :: "git_refspec \<Rightarrow> bool" where
  "Refspec_is_forced_get refspec = (if rs_force refspec then True else False)"

definition Refspec_direction_get :: "git_refspec \<Rightarrow> int" where
  "Refspec_direction_get refspec = (if rs_push refspec then 1 else 0)"

definition Refspec_destination_get :: "git_refspec \<Rightarrow> host \<Rightarrow> string option \<times> host" where
  "Refspec_destination_get refspec h = to_unicode (rs_dst refspec) h"

definition Refspec_source_get :: "git_refspec \<Rightarrow> host \<Rightarrow> string option \<times> host" where
  "Refspec_source_get refspec h = to_unicode (rs_src refspec) h"

definition Refspec_string_get :: "git_refspec \<Rightarrow> host \<Rightarrow> string option \<times> host" where
  "Refspec_string_get refspec h = to_unicode (rs_string refspec) h"

section \<open>Remote.fetchspec\<close>

text \<open>
  \<^verbatim>\<open>PyArg_ParseTuple(py_tuple, "ss", &src, &dst)\<close>: a tuple of exactly two strings, neither
  holding a NUL byte. An argument that is not a tuple raises \<^verbatim>\<open>SystemError\<close>; a tuple of
  another shape raises \<^verbatim>\<open>TypeError\<close>.
\<close>

definition parse_tuple_ss :: "py_obj \<Rightarrow> host \<Rightarrow> (string \<times> string) option \<times> host" where
  "parse_tuple_ss py_tuple h =
     (case py_tuple of
        PyTuple items \<Rightarrow>
          (case items of
             [PyString s, PyString d] \<Rightarrow>
               (if CHR 0x00 \<in> set s \<or> CHR 0x00 \<in> set d
                then (None, h\<lparr>pending := Some TypeError\<rparr>)
                else (Some (s, d), h))
           | _ \<Rightarrow> (None, h\<lparr>pending := Some TypeError\<rparr>))
      | _ \<Rightarrow> (None, h\<lparr>pending := Some SystemError\<rparr>))"

text \<open>
  \<^verbatim>\<open>Remote_fetchspec__set__\<close>: the buffer of \<open>strlen(src) + strlen(dst) + 3\<close> bytes is
  filled with \<^verbatim>\<open>"+%s:%s"\<close> and handed to \<^verbatim>\<open>git_remote_set_fetchspec\<close>; the setter
  answers 0, or -1. The library call is the first argument, so that what the setter does
  can be stated for whatever the library answers.
\<close>

definition Remote_fetchspec_set ::
  "(git_remote \<Rightarrow> string \<Rightarrow> int \<times> git_remote) \<Rightarrow> git_remote \<Rightarrow> py_obj \<Rightarrow> host \<Rightarrow> int \<times> git_remote \<times> host" where
  "Remote_fetchspec_set lib_set_fetchspec remote py_tuple h =
     (case parse_tuple_ss py_tuple h of
        (None, h) \<Rightarrow> (- 1, remote, h)
      | (Some (src, dst), h) \<Rightarrow>
          (let (allocated, h) = calloc h
           in if allocated then
                (let buf = ''+'' @ src @ '':'' @ dst;
                     (err, remote) = lib_set_fetchspec remote buf
                 in if err = GIT_OK then (0, remote, h)
                    else (- 1, remote, Error_set_exc ValueError h))
              else (- 1, remote, h)))"

text \<open>
  \<^verbatim>\<open>Remote_fetchspec__get__\<close>: the pair built by \<^verbatim>\<open>Py_BuildValue("(ss)", ...)\<close>, or the
  error of \<^verbatim>\<open>GIT_ENOTFOUND\<close> when the remote has no fetch refspec.
\<close>

definition Remote_fetchspec_get :: "git_remote \<Rightarrow> host \<Rightarrow> py_obj option \<times> host" where
  "Remote_fetchspec_get remote h =
     (case remote_fetch remote of
        Some refspec \<Rightarrow>
          (let (built, h) = host_call h
           in if built then (Some (PyTuple [PyString (rs_src refspec), PyString (rs_dst refspec)]), h)
              else (None, h))
      | None \<Rightarrow> (None, Error_set GIT_ENOTFOUND h))"

section \<open>Vocabulary of the properties\<close>

text \<open>A script in which no host call fails.\<close>

definition no_faults :: "py_exc option list \<Rightarrow> bool" where
  "no_faults fs = list_all (\<lambda>f. f = None) fs"

text \<open>
  The report the spec asks for: one entry per status whose message is present, in the order
  of the status list, and none for a status without a message.
\<close>

fun expected_report :: "(string \<times> string option) list \<Rightarrow> report" where
  "expected_report [] = []"
| "expected_report ((ref, None) # rest) = expected_report rest"
| "expected_report ((ref, Some m) # rest) = (ref, m) # expected_report rest"

text \<open>A string that can stand as a C string: it holds no NUL byte.\<close>

definition c_string :: "string \<Rightarrow> bool" where
  "c_string s = (CHR 0x00 \<notin> set s)"

text \<open>A name has the shape of a pattern when the pattern's wildcard can capture part of it.\<close>

definition pattern_matches :: "string \<Rightarrow> string \<Rightarrow> bool" where
  "pattern_matches pat name = (capture pat name \<noteq> None)"

section \<open>Example exchanges\<close>

text \<open>
  A fetch whose three steps succeed, and a push of two branches of which the server accepts
  \<^verbatim>\<open>refs/heads/a\<close> without comment and rejects \<^verbatim>\<open>refs/heads/x\<close>.
\<close>

definition fetch_ok_env :: fetch_env where
  "fetch_ok_env =
     \<lparr>fe_connect = 0, fe_download = 0,
      fe_stats = \<lparr>indexed_objects = 3, received_objects = 4, received_bytes = 512\<rparr>,
      fe_update_tips = 0\<rparr>"

text \<open>A fetch that received 2^63 bytes, the first count whose top bit is set.\<close>

definition fetch_huge_env :: fetch_env where
  "fetch_huge_env =
     \<lparr>fe_connect = 0, fe_download = 0,
      fe_stats = \<lparr>indexed_objects = 3, received_objects = 4,
                  received_bytes = 9223372036854775808\<rparr>,
      fe_update_tips = 0\<rparr>"

definition push_ok_env :: push_env where
  "push_ok_env =
     \<lparr>pe_connect = 0, pe_push_new = 0, pe_add_refspec = (\<lambda>idx c_refspec. 0), pe_finish = 0,
      pe_unpack_ok = 1,
      pe_status = [(''refs/heads/a'', None), (''refs/heads/x'', Some ''non-fast-forward'')],
      pe_update_tips = 0\<rparr>"

definition two_refspecs :: "string list" where
  "two_refspecs = [''refs/heads/a'', ''refs/heads/x'']"

text \<open>The same push with both branches rejected.\<close>

definition push_rejected_env :: push_env where
  "push_rejected_env =
     push_ok_env\<lparr>pe_status := [(''refs/heads/a'', Some ''denied''),
                                (''refs/heads/x'', Some ''non-fast-forward'')]\<rparr>"

text \<open>
  The usual fetch refspec of a remote called origin, a host in which nothing fails, and a
  remote without a fetch refspec.
\<close>

definition origin_refspec :: git_refspec where
  "origin_refspec =
     \<lparr>rs_string = ''+refs/heads/*:refs/remotes/origin/*'', rs_src = ''refs/heads/*'',
      rs_dst = ''refs/remotes/origin/*'', rs_force = True, rs_push = False\<rparr>"

definition quiet_host :: host where
  "quiet_host = \<lparr>pending = None, faults = []\<rparr>"

definition bare_remote :: git_remote where
  "bare_remote = \<lparr>remote_fetch = None\<rparr>"



section \<open>Lemmas about the host calls and the loops\<close>

lemma sint_below_top_bit:
  "(w :: 64 word) < 2 ^ 63 \<Longrightarrow> sint w = uint w"
proof -
  assume "w < 2 ^ 63"
  then have "uint w < uint (2 ^ 63 :: 64 word)" by (simp only: word_less_def)
  then have u: "uint w < 2 ^ 63" by simp
  have z: "0 \<le> uint w" by simp
  have n: "- (2 ^ 63) \<le> (0 :: int)" by simp
  from n z have "- (2 ^ 63) \<le> uint w" by (rule order_trans)
  with u have "signed_take_bit 63 (uint w) = uint w"
    by (intro signed_take_bit_int_eq_self)
  then show ?thesis by (simp add: sint_uint)
qed

lemma fetch_flow:
  assumes "fe_connect env \<le> 0" and "fe_download env \<le> 0" and "fe_update_tips env \<le> 0"
  shows "(fe_connect env \<noteq> GIT_OK \<longrightarrow>
            Remote_fetch env fs =
              \<lparr>lib_calls = [Connect GIT_DIRECTION_FETCH], returned = None,
               raised = Some (ErrorSet (fe_connect env))\<rparr>) \<and>
         (fe_connect env = GIT_OK \<longrightarrow>
            (returned (Remote_fetch env fs) \<noteq> None \<longrightarrow>
               returned (Remote_fetch env fs) = Some (build_stats (fe_stats env)) \<and>
               fe_download env = GIT_OK \<and> fe_update_tips env = GIT_OK) \<and>
            (no_faults fs \<and> fe_download env = GIT_OK \<and> fe_update_tips env = GIT_OK \<longrightarrow>
               returned (Remote_fetch env fs) = Some (build_stats (fe_stats env)) \<and>
               raised (Remote_fetch env fs) = None) \<and>
            (fe_download env \<noteq> GIT_OK \<longrightarrow>
               returned (Remote_fetch env fs) = None \<and>
               raised (Remote_fetch env fs) = Some (ErrorSet (fe_download env)) \<and>
               last (lib_calls (Remote_fetch env fs)) = Disconnect) \<and>
            (fe_download env = GIT_OK \<and> fe_update_tips env \<noteq> GIT_OK \<longrightarrow>
               returned (Remote_fetch env fs) = None \<and>
               raised (Remote_fetch env fs) = Some (ErrorSet (fe_update_tips env)) \<and>
               last (lib_calls (Remote_fetch env fs)) = Disconnect))"
  using assms
  by (auto simp: Remote_fetch_def fetch_return_def Error_set_def GIT_OK_def Let_def host_call_def
      no_faults_def split: prod.splits list.splits option.splits)

lemma host_call_no_faults:
  "no_faults (faults h) \<Longrightarrow> host_call h = (True, snd (host_call h)) \<and> pending (snd (host_call h)) = pending h \<and> no_faults (faults (snd (host_call h)))"
  by (auto simp: host_call_def no_faults_def split: list.splits option.splits)

lemma host_call_clean:
  "host_call h = (ok, h') \<Longrightarrow> pending h' = None \<Longrightarrow> ok \<and> pending h = None"
  by (auto simp: host_call_def split: list.splits option.splits)

lemma cb_clean:
  assumes "push_foreach_cb ref msg (data, h) = (rc, data', h')" and "pending h' = None"
  shows "rc = GIT_OK \<and> data' = data @ expected_report [(ref, msg)] \<and> pending h = None"
proof (cases msg)
  case None
  with assms show ?thesis by (simp add: push_foreach_cb_def)
next
  case (Some m)
  obtain o1 h1 where c1: "host_call h = (o1, h1)" by (cases "host_call h")
  obtain o2 h2 where c2: "host_call h1 = (o2, h2)" by (cases "host_call h1")
  obtain o3 h3 where c3: "host_call h2 = (o3, h3)" by (cases "host_call h2")
  obtain o4 h4 where c4: "host_call h3 = (o4, h4)" by (cases "host_call h3")
  show ?thesis
    using assms Some c1 c2 c3 c4
      host_call_clean[OF c1] host_call_clean[OF c2] host_call_clean[OF c3] host_call_clean[OF c4]
    by (auto simp: push_foreach_cb_def Let_def split: if_splits)
qed

lemma foreach_clean:
  "git_push_status_foreach sts push_foreach_cb (data, h) = (rc, data', h') \<Longrightarrow> pending h' = None \<Longrightarrow>
     rc = GIT_OK \<and> data' = data @ expected_report sts \<and> pending h = None"
proof (induction sts arbitrary: data h)
  case Nil
  then show ?case by simp
next
  case (Cons s sts)
  obtain ref msg where s: "s = (ref, msg)" by (cases s)
  obtain rc1 d1 h1 where cb: "push_foreach_cb ref msg (data, h) = (rc1, d1, h1)"
    by (cases "push_foreach_cb ref msg (data, h)")
  show ?case
  proof (cases "rc1 < 0")
    case True
    with Cons.prems s cb have "h' = h1" by simp
    with cb_clean[OF cb] Cons.prems(2) True show ?thesis by (simp add: GIT_OK_def)
  next
    case False
    with Cons.prems s cb have rest: "git_push_status_foreach sts push_foreach_cb (d1, h1) = (rc, data', h')"
      by simp
    from Cons.IH[OF rest Cons.prems(2)] have r: "rc = GIT_OK" "data' = d1 @ expected_report sts" "pending h1 = None"
      by simp_all
    from cb_clean[OF cb r(3)] r s show ?thesis by (cases msg) simp_all
  qed
qed


lemma push_finish_clean:
  assumes "push_finish env tr h = (err, tr', h', Some data)" and "pending h' = None"
  shows "data = expected_report (pe_status env)"
proof -
  obtain ok h1 where c: "host_call h = (ok, h1)" by (cases "host_call h")
  obtain rc d2 h2 where f: "git_push_status_foreach (pe_status env) push_foreach_cb ([], h1) = (rc, d2, h2)"
    by (cases "git_push_status_foreach (pe_status env) push_foreach_cb ([], h1)")
  from assms c f have "d2 = data" "h2 = h'"
    by (auto simp: push_finish_def Let_def split: if_splits)
  with foreach_clean[OF f] assms(2) show ?thesis by simp
qed

lemma push_reported_clean:
  assumes "returned (Remote_push env fs args) = Some rep" and "raised (Remote_push env fs args) = None"
  shows "rep = expected_report (pe_status env)"
  using assms
  by (auto simp: Remote_push_def push_return_def Error_set_def Let_def
      split: list.splits prod.splits option.splits if_splits dest: push_finish_clean)


lemma add_refspecs_stopped:
  "err \<noteq> GIT_OK \<Longrightarrow> add_refspecs env idx xs err tr h = (err, tr, h)"
  by (cases xs) simp_all

lemma add_refspecs_strings:
  "\<forall>i < length rs. pe_add_refspec env (idx + i) (rs ! i) = GIT_OK \<Longrightarrow>
   add_refspecs env idx (map PyString rs @ rest) GIT_OK tr h =
   add_refspecs env (idx + length rs) rest GIT_OK (tr @ map AddRefspec rs) h"
proof (induction rs arbitrary: idx tr)
  case Nil
  then show ?case by simp
next
  case (Cons r rs)
  from Cons.prems have hd_ok: "pe_add_refspec env idx r = GIT_OK" by auto
  from Cons.prems have tl_ok: "\<forall>i < length rs. pe_add_refspec env (Suc idx + i) (rs ! i) = GIT_OK"
    by auto
  show ?case
    using Cons.IH[OF tl_ok] hd_ok by (simp add: PyString_AsString_def)
qed

lemma add_refspecs_calls:
  "add_refspecs env idx xs err tr h = (err', tr', h') \<Longrightarrow> \<exists>cs. tr' = tr @ map AddRefspec cs"
proof (induction xs arbitrary: idx err tr h)
  case Nil
  then show ?case by simp
next
  case (Cons x xs)
  show ?case
  proof (cases "err = GIT_OK")
    case False
    with Cons.prems show ?thesis by simp
  next
    case True
    show ?thesis
    proof (cases x)
      case (PyString s)
      with True Cons.prems
      have "add_refspecs env (Suc idx) xs (pe_add_refspec env idx s) (tr @ [AddRefspec s]) h = (err', tr', h')"
        by (simp add: PyString_AsString_def)
      from Cons.IH[OF this] obtain cs where "tr' = (tr @ [AddRefspec s]) @ map AddRefspec cs" by blast
      then have "tr' = tr @ map AddRefspec (s # cs)" by simp
      then show ?thesis by blast
    next
      case (PyList ys)
      with True Cons.prems show ?thesis
        by (simp add: PyString_AsString_def add_refspecs_stopped GIT_EUSER_def GIT_OK_def)
    next
      case (PyTuple ys)
      with True Cons.prems show ?thesis
        by (simp add: PyString_AsString_def add_refspecs_stopped GIT_EUSER_def GIT_OK_def)
    next
      case (PyInt n)
      with True Cons.prems show ?thesis
        by (simp add: PyString_AsString_def add_refspecs_stopped GIT_EUSER_def GIT_OK_def)
    next
      case PyNone
      with True Cons.prems show ?thesis
        by (simp add: PyString_AsString_def add_refspecs_stopped GIT_EUSER_def GIT_OK_def)
    qed
  qed
qed

lemma push_finish_calls:
  "push_finish env tr h = (err, tr', h', res) \<Longrightarrow>
     \<exists>ys. tr' = tr @ ys \<and> Disconnect \<notin> set ys"
  by (auto simp: push_finish_def Let_def split: if_splits prod.splits)

lemma cb_no_faults:
  assumes "no_faults (faults h)"
  shows "\<exists>h'. push_foreach_cb ref msg (data, h) = (GIT_OK, data @ expected_report [(ref, msg)], h') \<and>
           pending h' = pending h \<and> no_faults (faults h')"
proof (cases msg)
  case None
  with assms show ?thesis by (simp add: push_foreach_cb_def)
next
  case (Some m)
  let ?h1 = "snd (host_call h)"
  let ?h2 = "snd (host_call ?h1)"
  let ?h3 = "snd (host_call ?h2)"
  let ?h4 = "snd (host_call ?h3)"
  note c1 = host_call_no_faults[OF assms]
  note c2 = host_call_no_faults[of ?h1]
  note c3 = host_call_no_faults[of ?h2]
  note c4 = host_call_no_faults[of ?h3]
  from c1 c2 c3 c4 have "push_foreach_cb ref msg (data, h) = (GIT_OK, data @ [(ref, m)], ?h4)"
    unfolding push_foreach_cb_def Some
    by (simp add: Let_def split: prod.splits) (metis fst_conv snd_conv)
  with c1 c2 c3 c4 Some show ?thesis by simp
qed

lemma foreach_no_faults:
  "no_faults (faults h) \<Longrightarrow>
   \<exists>h'. git_push_status_foreach sts push_foreach_cb (data, h) = (GIT_OK, data @ expected_report sts, h') \<and>
         pending h' = pending h \<and> no_faults (faults h')"
proof (induction sts arbitrary: data h)
  case Nil
  then show ?case by simp
next
  case (Cons s sts)
  obtain ref msg where s: "s = (ref, msg)" by (cases s)
  from cb_no_faults[OF Cons.prems, of ref msg data] obtain h1 where
    cb: "push_foreach_cb ref msg (data, h) = (GIT_OK, data @ expected_report [(ref, msg)], h1)"
    and h1: "pending h1 = pending h" "no_faults (faults h1)" by blast
  from Cons.IH[OF h1(2), of "data @ expected_report [(ref, msg)]"] obtain h' where
    r: "git_push_status_foreach sts push_foreach_cb (data @ expected_report [(ref, msg)], h1) =
          (GIT_OK, (data @ expected_report [(ref, msg)]) @ expected_report sts, h')"
    and h': "pending h' = pending h1" "no_faults (faults h')" by blast
  have "expected_report [(ref, msg)] @ expected_report sts = expected_report ((ref, msg) # sts)"
    by (cases msg) simp_all
  with cb r h1 h' s show ?case by (simp add: GIT_OK_def)
qed


lemma push_all_ok:
  assumes "pe_connect env = GIT_OK" and "pe_push_new env = GIT_OK"
    and adds: "\<forall>i < length rs. pe_add_refspec env i (rs ! i) = GIT_OK"
    and "pe_finish env = GIT_OK" and "pe_unpack_ok env \<noteq> 0" and "pe_update_tips env = GIT_OK"
    and nf: "no_faults fs"
  shows "Remote_push env fs [PyList (map PyString rs)] =
           \<lparr>lib_calls = [Connect GIT_DIRECTION_PUSH, PushNew] @ map AddRefspec rs @
                         [PushFinish, UnpackOk, StatusForeach, PushUpdateTips, PushFree, Disconnect],
            returned = Some (expected_report (pe_status env)), raised = None\<rparr>"
proof -
  let ?h = "\<lparr>pending = None, faults = fs\<rparr>"
  let ?tr = "[Connect GIT_DIRECTION_PUSH, PushNew]"
  from adds have "\<forall>i < length rs. pe_add_refspec env (0 + i) (rs ! i) = GIT_OK" by simp
  from add_refspecs_strings[OF this, of "[]" ?tr ?h]
  have loop: "add_refspecs env 0 (map PyString rs) GIT_OK ?tr ?h = (GIT_OK, ?tr @ map AddRefspec rs, ?h)"
    by simp
  from nf have nf0: "no_faults (faults ?h)" by simp
  note c = host_call_no_faults[OF nf0]
  from foreach_no_faults[OF conjunct2[OF conjunct2[OF c]], of "pe_status env" "[]"] obtain h' where
    fe: "git_push_status_foreach (pe_status env) push_foreach_cb ([], snd (host_call ?h)) =
           (GIT_OK, expected_report (pe_status env), h')"
    and h': "pending h' = pending (snd (host_call ?h))" by auto
  from c h' have p: "pending h' = None" by simp
  have fin: "push_finish env (?tr @ map AddRefspec rs) ?h =
          (GIT_OK, ?tr @ map AddRefspec rs @ [PushFinish, UnpackOk, StatusForeach, PushUpdateTips], h',
           Some (expected_report (pe_status env)))"
    using assms(4-6) c fe
    by (simp add: push_finish_def Let_def split: prod.splits) (metis fst_conv snd_conv)
  show ?thesis
    using assms(1,2) loop fin p
    by (simp add: Remote_push_def PySequence_Fast_def push_return_def Let_def GIT_OK_def GIT_EUSER_def)
qed

lemma push_bad_item:
  assumes "pe_connect env = GIT_OK" and "pe_push_new env = GIT_OK"
    and adds: "\<forall>i < length pre. pe_add_refspec env i (pre ! i) = GIT_OK"
    and bad: "\<forall>s. bad \<noteq> PyString s"
    and ob: "ob = PyList (map PyString pre @ bad # post) \<or> ob = PyTuple (map PyString pre @ bad # post)"
  shows "Remote_push env fs [ob] =
           \<lparr>lib_calls = [Connect GIT_DIRECTION_PUSH, PushNew] @ map AddRefspec pre @ [PushFree, Disconnect],
            returned = None, raised = Some TypeError\<rparr>"
proof -
  let ?h = "\<lparr>pending = None, faults = fs\<rparr>"
  let ?tr = "[Connect GIT_DIRECTION_PUSH, PushNew]"
  from adds have "\<forall>i < length pre. pe_add_refspec env (0 + i) (pre ! i) = GIT_OK" by simp
  from add_refspecs_strings[OF this, of "bad # post" ?tr ?h]
  have "add_refspecs env 0 (map PyString pre @ bad # post) GIT_OK ?tr ?h =
          add_refspecs env (length pre) (bad # post) GIT_OK (?tr @ map AddRefspec pre) ?h"
    by simp
  also from bad have "\<dots> = (GIT_EUSER, ?tr @ map AddRefspec pre, ?h\<lparr>pending := Some TypeError\<rparr>)"
    by (cases bad) (simp_all add: PyString_AsString_def add_refspecs_stopped GIT_EUSER_def GIT_OK_def)
  finally have loop: "add_refspecs env 0 (map PyString pre @ bad # post) GIT_OK ?tr ?h =
      (GIT_EUSER, ?tr @ map AddRefspec pre, ?h\<lparr>pending := Some TypeError\<rparr>)" .
  have seq: "PySequence_Fast ob ?h = (Some (map PyString pre @ bad # post), ?h)"
    using ob by (auto simp: PySequence_Fast_def)
  show ?thesis
    using assms(1,2) loop seq
    by (simp add: Remote_push_def push_return_def Let_def GIT_OK_def GIT_EUSER_def)
qed

lemma fetch_disconnect:
  "(fe_connect env = GIT_OK \<longrightarrow>
      count_list (lib_calls (Remote_fetch env fs)) Disconnect = 1 \<and>
      last (lib_calls (Remote_fetch env fs)) = Disconnect) \<and>
   (fe_connect env \<noteq> GIT_OK \<longrightarrow> Disconnect \<notin> set (lib_calls (Remote_fetch env fs)))"
  by (auto simp: Remote_fetch_def fetch_return_def Let_def split: prod.splits)

lemma push_return_calls: "lib_calls (push_return tr err res h) = tr"
  by (simp add: push_return_def)

lemma push_disconnect:
  "(Connect GIT_DIRECTION_PUSH \<in> set (lib_calls (Remote_push env fs args)) \<and> pe_connect env = GIT_OK \<longrightarrow>
      count_list (lib_calls (Remote_push env fs args)) Disconnect = 1 \<and>
      last (lib_calls (Remote_push env fs args)) = Disconnect) \<and>
   (\<not> (Connect GIT_DIRECTION_PUSH \<in> set (lib_calls (Remote_push env fs args)) \<and> pe_connect env = GIT_OK) \<longrightarrow>
      Disconnect \<notin> set (lib_calls (Remote_push env fs args)))"
proof (cases "\<exists>ob. args = [ob]")
  case False
  then have "lib_calls (Remote_push env fs args) = []"
    by (auto simp: Remote_push_def split: list.splits)
  then show ?thesis by simp
next
  case True
  then obtain ob where args: "args = [ob]" by blast
  let ?h = "\<lparr>pending = None, faults = fs\<rparr>"
  obtain sq h0 where sq: "PySequence_Fast ob ?h = (sq, h0)" by (cases "PySequence_Fast ob ?h")
  show ?thesis
  proof (cases sq)
    case None
    with args sq have "lib_calls (Remote_push env fs args) = []"
      by (simp add: Remote_push_def)
    then show ?thesis by simp
  next
    case (Some items)
    show ?thesis
    proof (cases "pe_connect env = GIT_OK")
      case False
      with args sq Some have "lib_calls (Remote_push env fs args) = [Connect GIT_DIRECTION_PUSH]"
        by (simp add: Remote_push_def push_return_calls)
      with False show ?thesis by simp
    next
      case conn: True
      show ?thesis
      proof (cases "pe_push_new env = GIT_OK")
        case False
        with conn args sq Some
        have "lib_calls (Remote_push env fs args) = [Connect GIT_DIRECTION_PUSH, PushNew, Disconnect]"
          by (simp add: Remote_push_def push_return_calls)
        with conn show ?thesis by simp
      next
        case new: True
        let ?tr = "[Connect GIT_DIRECTION_PUSH, PushNew]"
        obtain e1 tr1 h1 where l: "add_refspecs env 0 items GIT_OK ?tr h0 = (e1, tr1, h1)"
          by (cases "add_refspecs env 0 items GIT_OK ?tr h0")
        from add_refspecs_calls[OF l] obtain cs where tr1: "tr1 = ?tr @ map AddRefspec cs" by blast
        obtain e2 tr2 h2 res where f: "push_finish env tr1 h1 = (e2, tr2, h2, res)"
          by (cases "push_finish env tr1 h1")
        from push_finish_calls[OF f] obtain ys where tr2: "tr2 = tr1 @ ys" "Disconnect \<notin> set ys" by blast
        have "\<exists>zs. lib_calls (Remote_push env fs args) = ?tr @ zs @ [PushFree, Disconnect] \<and> Disconnect \<notin> set zs"
        proof (cases "e1 = GIT_OK")
          case True
          with conn new args sq Some l f
          have "lib_calls (Remote_push env fs args) = tr2 @ [PushFree, Disconnect]"
            by (simp add: Remote_push_def push_return_calls)
          with tr1 tr2 have "lib_calls (Remote_push env fs args) = ?tr @ (map AddRefspec cs @ ys) @ [PushFree, Disconnect]"
            by simp
          moreover from tr2 have "Disconnect \<notin> set (map AddRefspec cs @ ys)" by auto
          ultimately show ?thesis by blast
        next
          case False
          with conn new args sq Some l
          have "lib_calls (Remote_push env fs args) = tr1 @ [PushFree, Disconnect]"
            by (simp add: Remote_push_def push_return_calls)
          with tr1 have "lib_calls (Remote_push env fs args) = ?tr @ map AddRefspec cs @ [PushFree, Disconnect]"
            by simp
          moreover have "Disconnect \<notin> set (map AddRefspec cs)" by auto
          ultimately show ?thesis by blast
        qed
        then obtain zs where zs: "lib_calls (Remote_push env fs args) = ?tr @ zs @ [PushFree, Disconnect]"
          "Disconnect \<notin> set zs" by blast
        then have "count_list (lib_calls (Remote_push env fs args)) Disconnect = 1"
          by (simp add: count_list_0_iff)
        with zs conn show ?thesis by simp
      qed
    qed
  qed
qed

section \<open>Lemmas about patterns, the parser and the refspec methods\<close>

lemma host_call_succeeds:
  "no_faults (faults h) \<Longrightarrow> \<exists>h'. host_call h = (True, h') \<and> pending h' = pending h \<and> no_faults (faults h')"
  by (auto simp: host_call_def no_faults_def split: list.splits option.splits)

lemma calloc_succeeds:
  "no_faults (faults h) \<Longrightarrow> \<exists>h'. calloc h = (True, h') \<and> pending h' = pending h \<and> no_faults (faults h')"
  by (auto simp: calloc_def no_faults_def split: list.splits option.splits)

lemma c_str_id: "c_string s \<Longrightarrow> c_str s = s"
  by (auto simp: c_string_def c_str_def takeWhile_eq_all_conv)

lemma star_split_Some:
  "star_split pat = Some (pre, suf) \<Longrightarrow> pat = pre @ CHR ''*'' # suf \<and> CHR ''*'' \<notin> set pre"
proof -
  assume a: "star_split pat = Some (pre, suf)"
  let ?P = "\<lambda>c. c \<noteq> CHR ''*''"
  from a have mem: "CHR ''*'' \<in> set pat" and pre: "pre = takeWhile ?P pat" and suf: "suf = tl (dropWhile ?P pat)"
    by (auto simp: star_split_def split: if_splits)
  from mem have ne: "dropWhile ?P pat \<noteq> []" by (auto simp: dropWhile_eq_Nil_conv)
  then have "hd (dropWhile ?P pat) = CHR ''*''" using hd_dropWhile[of ?P pat] by simp
  with ne have "dropWhile ?P pat = CHR ''*'' # suf" using suf by (cases "dropWhile ?P pat") simp_all
  then have "pat = pre @ CHR ''*'' # suf" using pre takeWhile_dropWhile_id[of ?P pat] by simp
  moreover have "CHR ''*'' \<notin> set pre" using pre by (auto dest: set_takeWhileD)
  ultimately show ?thesis by simp
qed


lemma star_split_count: "count_list pat CHR ''*'' = 1 \<Longrightarrow> \<exists>pre suf. star_split pat = Some (pre, suf)"
  by (cases "CHR ''*'' \<in> set pat") (simp_all add: star_split_def count_list_0_iff)


lemma capture_shape:
  assumes "capture pat name = Some cap"
  shows "name = substitute pat cap \<and> length cap \<le> length name"
proof (cases "star_split pat")
  case None
  with assms show ?thesis by (auto simp: capture_def substitute_def split: if_splits)
next
  case (Some ps)
  obtain pre suf where ps: "ps = (pre, suf)" by (cases ps)
  from assms Some ps have len: "length pre + length suf \<le> length name"
    and p: "take (length pre) name = pre"
    and s: "drop (length name - length suf) name = suf"
    and c: "cap = take (length name - length pre - length suf) (drop (length pre) name)"
    by (auto simp: capture_def split: if_splits)
  let ?k = "length name - length pre - length suf"
  have d: "drop ?k (drop (length pre) name) = drop (length name - length suf) name"
  proof -
    from len have "?k + length pre = length name - length suf" by arith
    then show ?thesis by (simp only: drop_drop)
  qed
  have "name = take (length pre) name @ drop (length pre) name"
    by (simp only: append_take_drop_id)
  also have "drop (length pre) name = take ?k (drop (length pre) name) @ drop ?k (drop (length pre) name)"
    by (simp only: append_take_drop_id)
  finally have "name = pre @ cap @ suf" using p s c d by simp
  moreover from c have "length cap \<le> length name" by simp
  ultimately have "name = pre @ cap @ suf \<and> length cap \<le> length name" by blast
  with Some ps show ?thesis by (simp add: substitute_def)
qed


lemma substitute_length: "length (substitute pat cap) \<le> length pat + length cap"
proof (cases "star_split pat")
  case None
  then show ?thesis by (simp add: substitute_def)
next
  case (Some ps)
  obtain pre suf where ps: "ps = (pre, suf)" by (cases ps)
  from star_split_Some[OF Some[unfolded ps]] have "length pat = length pre + length suf + 1" by simp
  with Some ps show ?thesis by (simp add: substitute_def)
qed

lemma transform_internal_fits:
  assumes "capture from name = Some cap" and "length to + length name < outlen"
  shows "refspec_transform_internal outlen from to name = (GIT_OK, substitute to cap)"
proof -
  from capture_shape[OF assms(1)] have "length cap \<le> length name" by blast
  with substitute_length[of to cap] assms(2) have "length (substitute to cap) < outlen" by linarith
  with assms(1) show ?thesis by (simp add: refspec_transform_internal_def)
qed

lemma transform_body_ok:
  assumes nf: "no_faults (faults h)" and cs: "c_string s"
    and cap: "capture from s = Some cap"
    and lib: "\<And>outlen. lib outlen r s = refspec_transform_internal outlen from to s"
  shows "transform_body lib to r (PyString s) h =
           \<lparr>tf_outlen = Some (length to + length s + 1), tf_written = length (substitute to cap) + 1,
            tf_crashed = False, tf_returned = Some (substitute to cap), tf_raised = pending h\<rparr>"
proof -
  from host_call_succeeds[OF nf] obtain h1 where
    c1: "host_call h = (True, h1)" "pending h1 = pending h" "no_faults (faults h1)" by blast
  from calloc_succeeds[OF c1(3)] obtain h2 where
    c2: "calloc h1 = (True, h2)" "pending h2 = pending h1" "no_faults (faults h2)" by blast
  from host_call_succeeds[OF c2(3)] obtain h3 where
    c3: "host_call h2 = (True, h3)" "pending h3 = pending h2" "no_faults (faults h3)" by blast
  have p: "py_path_to_c_str (PyString s) h = (Some s, h1)"
    using c1 cs by (simp add: py_path_to_c_str_def c_str_id)
  have t: "lib (Suc (length to + length s)) r s = (GIT_OK, substitute to cap)"
    using lib transform_internal_fits[OF cap, of to "Suc (length to + length s)"] by simp
  have u: "to_unicode (substitute to cap) h2 = (Some (substitute to cap), h3)"
    using c3 by (simp add: to_unicode_def)
  show ?thesis
    by (simp add: transform_body_def p c2 t u c3 c1 GIT_OK_def)
qed


lemma count_colon:
  "count_list (s @ CHR '':'' # d) CHR '':'' = 1 \<longleftrightarrow> CHR '':'' \<notin> set s \<and> CHR '':'' \<notin> set d"
  by (auto simp: count_list_0_iff)

lemma split_at_first:
  "c \<notin> set s \<Longrightarrow>
     takeWhile (\<lambda>x. x \<noteq> c) (s @ c # d) = s \<and> dropWhile (\<lambda>x. x \<noteq> c) (s @ c # d) = c # d"
  by (induction s) auto

lemma count_one_member: "count_list xs c = 1 \<Longrightarrow> c \<in> set xs"
proof (rule ccontr)
  assume one: "count_list xs c = 1" and "c \<notin> set xs"
  then have "count_list xs c = 0" by (simp add: count_list_0_iff)
  with one show False by simp
qed

lemma parse_forced:
  "git_refspec_parse is_fetch (''+'' @ s @ '':'' @ d) =
     (if CHR '':'' \<notin> set s \<and> CHR '':'' \<notin> set d
      then Some \<lparr>rs_string = ''+'' @ s @ '':'' @ d, rs_src = s, rs_dst = d, rs_force = True,
                 rs_push = (\<not> is_fetch)\<rparr>
      else None)"
proof (cases "CHR '':'' \<notin> set s \<and> CHR '':'' \<notin> set d")
  case True
  then have "takeWhile (\<lambda>c. c \<noteq> CHR '':'') (s @ CHR '':'' # d) = s"
    and "dropWhile (\<lambda>c. c \<noteq> CHR '':'') (s @ CHR '':'' # d) = CHR '':'' # d"
    using split_at_first[of "CHR '':''" s d] by blast+
  with True show ?thesis
    using count_colon[of s d] by (simp add: git_refspec_parse_def)
next
  case False
  then show ?thesis
    using count_colon[of s d] by (simp add: git_refspec_parse_def)
qed

lemma parse_canonical:
  assumes "git_refspec_parse is_fetch input = Some r"
  shows "rs_string r = input \<and>
         input = (if rs_force r then ''+'' else []) @ rs_src r @ '':'' @ rs_dst r \<and>
         CHR '':'' \<notin> set (rs_src r) \<and> CHR '':'' \<notin> set (rs_dst r)"
proof -
  let ?P = "\<lambda>c. c \<noteq> CHR '':''"
  define force where "force = (case input of [] \<Rightarrow> False | c # _ \<Rightarrow> c = CHR ''+'')"
  define body where "body = (if force then tl input else input)"
  from assms have cnt: "count_list body CHR '':'' = 1"
    and r: "r = \<lparr>rs_string = input, rs_src = takeWhile ?P body, rs_dst = tl (dropWhile ?P body),
                 rs_force = force, rs_push = (\<not> is_fetch)\<rparr>"
    by (auto simp: git_refspec_parse_def Let_def force_def body_def split: if_splits)
  from cnt have mem: "CHR '':'' \<in> set body" by (rule count_one_member)
  then have ne: "dropWhile ?P body \<noteq> []" by (auto simp: dropWhile_eq_Nil_conv)
  then have "hd (dropWhile ?P body) = CHR '':''" using hd_dropWhile[of ?P body] by simp
  with ne have dw: "dropWhile ?P body = CHR '':'' # tl (dropWhile ?P body)"
    by (cases "dropWhile ?P body") simp_all
  then have body: "body = takeWhile ?P body @ CHR '':'' # tl (dropWhile ?P body)"
    using takeWhile_dropWhile_id[of ?P body] by simp
  have inp: "input = (if force then ''+'' else []) @ body"
    by (cases input) (auto simp: force_def body_def)
  from cnt body have "count_list (takeWhile ?P body @ CHR '':'' # tl (dropWhile ?P body)) CHR '':'' = 1"
    by simp
  then have nc: "CHR '':'' \<notin> set (takeWhile ?P body) \<and> CHR '':'' \<notin> set (tl (dropWhile ?P body))"
    using count_colon[of "takeWhile ?P body" "tl (dropWhile ?P body)"] by blast
  from inp body have "input = (if force then ''+'' else []) @ takeWhile ?P body @ '':'' @ tl (dropWhile ?P body)"
    by simp
  with r nc show ?thesis by simp
qed

lemma parse_plain:
  assumes "CHR '':'' \<notin> set s" and "CHR '':'' \<notin> set d" and "\<forall>t. s \<noteq> CHR ''+'' # t"
  shows "git_refspec_parse is_fetch (s @ '':'' @ d) =
           Some \<lparr>rs_string = s @ '':'' @ d, rs_src = s, rs_dst = d, rs_force = False,
                 rs_push = (\<not> is_fetch)\<rparr>"
proof -
  from assms(3) have nf: "(case s @ '':'' @ d of [] \<Rightarrow> False | c # _ \<Rightarrow> c = CHR ''+'') = False"
    by (cases s) auto
  from assms(1) have "takeWhile (\<lambda>c. c \<noteq> CHR '':'') (s @ CHR '':'' # d) = s"
    and "dropWhile (\<lambda>c. c \<noteq> CHR '':'') (s @ CHR '':'' # d) = CHR '':'' # d"
    using split_at_first[of "CHR '':''" s d] by blast+
  with assms(1,2) nf show ?thesis
    using count_colon[of s d] by (simp add: git_refspec_parse_def)
qed

lemma transform_body_outlen:
  "tf_outlen (transform_body lib template r py_name h) = Some n \<Longrightarrow>
     \<exists>s. py_name = PyString s \<and> n = length template + length (c_str s) + 1"
  by (cases py_name)
    (auto simp: transform_body_def py_path_to_c_str_def Let_def split: prod.splits if_splits)

lemma transform_body_written:
  assumes "tf_outlen (transform_body lib template r (PyString s) h) = Some n"
    and "length (snd (lib n r (c_str s))) \<le> length template + length (c_str s)"
  shows "tf_written (transform_body lib template r (PyString s) h) \<le> n"
proof -
  obtain ok h1 where c1: "host_call h = (ok, h1)" by (cases "host_call h")
  obtain al h2 where c2: "calloc h1 = (al, h2)" by (cases "calloc h1")
  obtain err out where l: "lib (Suc (length template + length (c_str s))) r (c_str s) = (err, out)"
    by (cases "lib (Suc (length template + length (c_str s))) r (c_str s)")
  obtain u h3 where c3: "to_unicode out h2 = (u, h3)" by (cases "to_unicode out h2")
  from transform_body_outlen[OF assms(1)] have n: "n = Suc (length template + length (c_str s))"
    by simp
  with assms(2) l have "length out \<le> length template + length (c_str s)" by simp
  with n c1 c2 l c3 show ?thesis
    by (simp add: transform_body_def py_path_to_c_str_def Let_def)
qed






lemma transform_fits:
  assumes nf: "no_faults (faults h)" and cs: "c_string s" and m: "pattern_matches (rs_src r) s"
  shows "tf_outlen (Refspec_transform git_refspec_transform r (PyString s) h) = Some (length (rs_dst r) + length s + 1) \<and>
         tf_returned (Refspec_transform git_refspec_transform r (PyString s) h) \<noteq> None \<and>
         \<not> tf_crashed (Refspec_transform git_refspec_transform r (PyString s) h) \<and>
         tf_written (Refspec_transform git_refspec_transform r (PyString s) h) \<le> length (rs_dst r) + length s + 1"
proof -
  from m obtain cap where cap: "capture (rs_src r) s = Some cap"
    by (auto simp: pattern_matches_def)
  have out: "Refspec_transform git_refspec_transform r (PyString s) h =
          \<lparr>tf_outlen = Some (length (rs_dst r) + length s + 1),
           tf_written = length (substitute (rs_dst r) cap) + 1,
           tf_crashed = False, tf_returned = Some (substitute (rs_dst r) cap), tf_raised = pending h\<rparr>"
    unfolding Refspec_transform_def
    by (rule transform_body_ok[OF nf cs cap]) (simp add: git_refspec_transform_def)
  from capture_shape[OF cap] have "length cap \<le> length s" by blast
  with substitute_length[of "rs_dst r" cap]
  have "length (substitute (rs_dst r) cap) + 1 \<le> length (rs_dst r) + length s + 1" by linarith
  with out show ?thesis by simp
qed

lemma rtransform_fits:
  assumes nf: "no_faults (faults h)" and cs: "c_string s" and m: "pattern_matches (rs_dst r) s"
  shows "tf_outlen (Refspec_rtransform git_refspec_rtransform r (PyString s) h) = Some (length (rs_src r) + length s + 1) \<and>
         tf_returned (Refspec_rtransform git_refspec_rtransform r (PyString s) h) \<noteq> None \<and>
         \<not> tf_crashed (Refspec_rtransform git_refspec_rtransform r (PyString s) h) \<and>
         tf_written (Refspec_rtransform git_refspec_rtransform r (PyString s) h) \<le> length (rs_src r) + length s + 1"
proof -
  from m obtain cap where cap: "capture (rs_dst r) s = Some cap"
    by (auto simp: pattern_matches_def)
  have out: "Refspec_rtransform git_refspec_rtransform r (PyString s) h =
          \<lparr>tf_outlen = Some (length (rs_src r) + length s + 1),
           tf_written = length (substitute (rs_src r) cap) + 1,
           tf_crashed = False, tf_returned = Some (substitute (rs_src r) cap), tf_raised = pending h\<rparr>"
    unfolding Refspec_rtransform_def
    by (rule transform_body_ok[OF nf cs cap]) (simp add: git_refspec_rtransform_def)
  from capture_shape[OF cap] have "length cap \<le> length s" by blast
  with substitute_length[of "rs_src r" cap]
  have "length (substitute (rs_src r) cap) + 1 \<le> length (rs_src r) + length s + 1" by linarith
  with out show ?thesis by simp
qed

lemma set_handed:
  assumes "Remote_fetchspec_set lib remote (PyTuple [PyString s, PyString d]) h = (0, remote', h')"
  shows "lib remote (''+'' @ s @ '':'' @ d) = (GIT_OK, remote')"
proof -
  obtain ok h1 where a: "calloc h = (ok, h1)" by (cases "calloc h")
  obtain err rem where l: "lib remote (''+'' @ s @ '':'' @ d) = (err, rem)"
    by (cases "lib remote (''+'' @ s @ '':'' @ d)")
  from assms a l have "err = GIT_OK \<and> rem = remote'"
    by (auto simp: Remote_fetchspec_set_def parse_tuple_ss_def Let_def split: if_splits)
  with l show ?thesis by simp
qed

lemma set_success:
  assumes "Remote_fetchspec_set git_remote_set_fetchspec remote (PyTuple [PyString s, PyString d]) h =
             (0, remote', h')"
  shows "remote_fetch remote' =
           Some \<lparr>rs_string = ''+'' @ s @ '':'' @ d, rs_src = s, rs_dst = d, rs_force = True,
                 rs_push = False\<rparr>"
proof -
  from set_handed[OF assms]
  have "git_remote_set_fetchspec remote (''+'' @ s @ '':'' @ d) = (GIT_OK, remote')" .
  then show ?thesis
    using parse_forced[of True s d]
    by (auto simp: git_remote_set_fetchspec_def GIT_OK_def GIT_ERROR_def split: if_splits)
qed

lemma get_stored:
  assumes "remote_fetch remote = Some r" and "no_faults (faults h)"
  shows "fst (Remote_fetchspec_get remote h) = Some (PyTuple [PyString (rs_src r), PyString (rs_dst r)])"
proof -
  from host_call_succeeds[OF assms(2)] obtain h1 where "host_call h = (True, h1)" by blast
  with assms(1) show ?thesis by (simp add: Remote_fetchspec_get_def)
qed

lemma set_rejected:
  assumes "c_string s" and "c_string d" and "no_faults (faults h)"
    and "fst (lib remote (''+'' @ s @ '':'' @ d)) \<noteq> GIT_OK"
  shows "fst (Remote_fetchspec_set lib remote (PyTuple [PyString s, PyString d]) h) = - 1 \<and>
         pending (snd (snd (Remote_fetchspec_set lib remote (PyTuple [PyString s, PyString d]) h))) =
           Some (ErrorSetExc ValueError)"
proof -
  from calloc_succeeds[OF assms(3)] obtain h1 where a: "calloc h = (True, h1)" by blast
  obtain err rem where l: "lib remote (''+'' @ s @ '':'' @ d) = (err, rem)"
    by (cases "lib remote (''+'' @ s @ '':'' @ d)")
  with assms(4) have "err \<noteq> GIT_OK" by simp
  with assms(1,2) a l show ?thesis
    by (simp add: Remote_fetchspec_set_def parse_tuple_ss_def c_string_def Error_set_exc_def)
qed

section \<open>The claims about fetch and push\<close>

text \<open>
  What holds of the report: when a push returns its report with no exception pending, the
  report holds exactly one entry \<open>(refname, message)\<close> for each reported reference whose
  message is present, in the order of the status callbacks, and none for a reference
  without a message. Such pushes exist: when every library step succeeds, the server
  acknowledged the unpack and no host call fails, the push returns that report. A status
  list without any message gives the empty report.
\<close>

lemma push_report_when_clean:
  "(returned (Remote_push env fs args) = Some rep \<and> raised (Remote_push env fs args) = None \<longrightarrow>
      rep = expected_report (pe_status env)) \<and>
   (pe_connect env = GIT_OK \<and> pe_push_new env = GIT_OK \<and>
    (\<forall>i < length rs. pe_add_refspec env i (rs ! i) = GIT_OK) \<and>
    pe_finish env = GIT_OK \<and> pe_unpack_ok env \<noteq> 0 \<and> pe_update_tips env = GIT_OK \<and>
    no_faults fs \<longrightarrow>
      returned (Remote_push env fs [PyList (map PyString rs)]) = Some (expected_report (pe_status env)) \<and>
      raised (Remote_push env fs [PyList (map PyString rs)]) = None) \<and>
   ((\<forall>s \<in> set sts. snd s = None) \<longrightarrow> expected_report sts = [])"
proof (intro conjI impI)
  assume "returned (Remote_push env fs args) = Some rep \<and> raised (Remote_push env fs args) = None"
  then show "rep = expected_report (pe_status env)"
    using push_reported_clean by blast
next
  assume ok: "pe_connect env = GIT_OK \<and> pe_push_new env = GIT_OK \<and>
    (\<forall>i < length rs. pe_add_refspec env i (rs ! i) = GIT_OK) \<and>
    pe_finish env = GIT_OK \<and> pe_unpack_ok env \<noteq> 0 \<and> pe_update_tips env = GIT_OK \<and>
    no_faults fs"
  then have out: "Remote_push env fs [PyList (map PyString rs)] =
           \<lparr>lib_calls = [Connect GIT_DIRECTION_PUSH, PushNew] @ map AddRefspec rs @
                         [PushFinish, UnpackOk, StatusForeach, PushUpdateTips, PushFree, Disconnect],
            returned = Some (expected_report (pe_status env)), raised = None\<rparr>"
    by (intro push_all_ok) simp_all
  show "returned (Remote_push env fs [PyList (map PyString rs)]) = Some (expected_report (pe_status env))"
    by (simp add: out)
  show "raised (Remote_push env fs [PyList (map PyString rs)]) = None"
    by (simp add: out)
next
  assume "\<forall>s \<in> set sts. snd s = None"
  then show "expected_report sts = []"
    by (induction sts rule: expected_report.induct) simp_all
qed

lemma push_report_when_clean_example:
  "returned (Remote_push push_ok_env [] [PyList (map PyString two_refspecs)]) =
     Some [(''refs/heads/x'', ''non-fast-forward'')] \<and>
   raised (Remote_push push_ok_env [] [PyList (map PyString two_refspecs)]) = None \<and>
   expected_report (pe_status push_ok_env) = [(''refs/heads/x'', ''non-fast-forward'')] \<and>
   expected_report [(''refs/heads/a'', None), (''refs/heads/b'', None)] = []"
proof -
  have ok: "pe_connect push_ok_env = GIT_OK \<and> pe_push_new push_ok_env = GIT_OK \<and>
    (\<forall>i < length two_refspecs. pe_add_refspec push_ok_env i (two_refspecs ! i) = GIT_OK) \<and>
    pe_finish push_ok_env = GIT_OK \<and> pe_unpack_ok push_ok_env \<noteq> 0 \<and>
    pe_update_tips push_ok_env = GIT_OK \<and> no_faults []"
    by (simp add: push_ok_env_def GIT_OK_def no_faults_def)
  have quiet: "\<forall>s \<in> set [(''refs/heads/a'', None :: string option), (''refs/heads/b'', None)]. snd s = None"
    by simp
  note inst = push_report_when_clean[of push_ok_env "[]" "[PyList (map PyString two_refspecs)]"
      "expected_report (pe_status push_ok_env)" two_refspecs
      "[(''refs/heads/a'', None), (''refs/heads/b'', None)]"]
  from inst ok have ret: "returned (Remote_push push_ok_env [] [PyList (map PyString two_refspecs)]) =
      Some (expected_report (pe_status push_ok_env))"
    and exc: "raised (Remote_push push_ok_env [] [PyList (map PyString two_refspecs)]) = None"
    by blast+
  from inst quiet have empty: "expected_report [(''refs/heads/a'', None), (''refs/heads/b'', None)] = []"
    by blast
  have ev: "expected_report (pe_status push_ok_env) = [(''refs/heads/x'', ''non-fast-forward'')]"
    by (simp add: push_ok_env_def)
  from ret exc empty ev show ?thesis by simp
qed

text \<open>
  C4. With the library's codes being 0 or negative: a failed connect makes fetch raise the
  error of the connect code after that single library call; after a successful connect
  the statistics snapshot is returned only if download and tip update both succeeded,
  and is returned whenever they did and the host could build it; a failed download or tip
  update raises the error of its own code, nothing is returned, and disconnect is the
  last library call. The snapshot holds the library's two object counters as the unsigned
  numbers they are, and the byte counter as the signed size that the format \<^verbatim>\<open>n\<close> reads:
  the counter itself as long as it is below 2^63.
\<close>

theorem fetch_outcome:
  assumes "fe_connect env \<le> 0" and "fe_download env \<le> 0" and "fe_update_tips env \<le> 0"
  shows "(fe_connect env \<noteq> GIT_OK \<longrightarrow>
            Remote_fetch env fs =
              \<lparr>lib_calls = [Connect GIT_DIRECTION_FETCH], returned = None,
               raised = Some (ErrorSet (fe_connect env))\<rparr>) \<and>
         (fe_connect env = GIT_OK \<longrightarrow>
            (returned (Remote_fetch env fs) \<noteq> None \<longrightarrow>
               returned (Remote_fetch env fs) =
                 Some \<lparr>py_indexed_objects = uint (indexed_objects (fe_stats env)),
                       py_received_objects = uint (received_objects (fe_stats env)),
                       py_received_bytes = sint (received_bytes (fe_stats env))\<rparr> \<and>
               fe_download env = GIT_OK \<and> fe_update_tips env = GIT_OK) \<and>
            (no_faults fs \<and> fe_download env = GIT_OK \<and> fe_update_tips env = GIT_OK \<longrightarrow>
               returned (Remote_fetch env fs) =
                 Some \<lparr>py_indexed_objects = uint (indexed_objects (fe_stats env)),
                       py_received_objects = uint (received_objects (fe_stats env)),
                       py_received_bytes = sint (received_bytes (fe_stats env))\<rparr> \<and>
               raised (Remote_fetch env fs) = None) \<and>
            (no_faults fs \<and> fe_download env = GIT_OK \<and> fe_update_tips env = GIT_OK \<and>
             received_bytes (fe_stats env) < 2 ^ 63 \<longrightarrow>
               returned (Remote_fetch env fs) =
                 Some \<lparr>py_indexed_objects = uint (indexed_objects (fe_stats env)),
                       py_received_objects = uint (received_objects (fe_stats env)),
                       py_received_bytes = uint (received_bytes (fe_stats env))\<rparr>) \<and>
            (fe_download env \<noteq> GIT_OK \<longrightarrow>
               returned (Remote_fetch env fs) = None \<and>
               raised (Remote_fetch env fs) = Some (ErrorSet (fe_download env)) \<and>
               last (lib_calls (Remote_fetch env fs)) = Disconnect) \<and>
            (fe_download env = GIT_OK \<and> fe_update_tips env \<noteq> GIT_OK \<longrightarrow>
               returned (Remote_fetch env fs) = None \<and>
               raised (Remote_fetch env fs) = Some (ErrorSet (fe_update_tips env)) \<and>
               last (lib_calls (Remote_fetch env fs)) = Disconnect))"
proof -
  have st: "build_stats (fe_stats env) =
      \<lparr>py_indexed_objects = uint (indexed_objects (fe_stats env)),
       py_received_objects = uint (received_objects (fe_stats env)),
       py_received_bytes = sint (received_bytes (fe_stats env))\<rparr>"
    by (simp add: build_stats_def)
  have small: "received_bytes (fe_stats env) < 2 ^ 63 \<longrightarrow>
      sint (received_bytes (fe_stats env)) = uint (received_bytes (fe_stats env))"
    using sint_below_top_bit by blast
  from fetch_flow[OF assms, of fs] st small show ?thesis
    by (simp only:) metis
qed

theorem fetch_outcome_witness:
  "Remote_fetch (fetch_ok_env\<lparr>fe_connect := - 1\<rparr>) [] =
     \<lparr>lib_calls = [Connect GIT_DIRECTION_FETCH], returned = None, raised = Some (ErrorSet (- 1))\<rparr> \<and>
   returned (Remote_fetch fetch_ok_env []) =
     Some \<lparr>py_indexed_objects = 3, py_received_objects = 4, py_received_bytes = 512\<rparr> \<and>
   raised (Remote_fetch fetch_ok_env []) = None \<and>
   returned (Remote_fetch fetch_huge_env []) =
     Some \<lparr>py_indexed_objects = 3, py_received_objects = 4,
           py_received_bytes = - 9223372036854775808\<rparr> \<and>
   returned (Remote_fetch (fetch_ok_env\<lparr>fe_download := - 1\<rparr>) []) = None \<and>
   raised (Remote_fetch (fetch_ok_env\<lparr>fe_download := - 1\<rparr>) []) = Some (ErrorSet (- 1)) \<and>
   last (lib_calls (Remote_fetch (fetch_ok_env\<lparr>fe_download := - 1\<rparr>) [])) = Disconnect \<and>
   returned (Remote_fetch (fetch_ok_env\<lparr>fe_update_tips := - 3\<rparr>) []) = None \<and>
   raised (Remote_fetch (fetch_ok_env\<lparr>fe_update_tips := - 3\<rparr>) []) = Some (ErrorSet (- 3)) \<and>
   last (lib_calls (Remote_fetch (fetch_ok_env\<lparr>fe_update_tips := - 3\<rparr>) [])) = Disconnect"
proof -
  let ?a = "fetch_ok_env\<lparr>fe_connect := - 1\<rparr>"
  let ?c = "fetch_ok_env\<lparr>fe_download := - 1\<rparr>"
  let ?d = "fetch_ok_env\<lparr>fe_update_tips := - 3\<rparr>"
  have a: "fe_connect ?a \<le> 0" "fe_download ?a \<le> 0" "fe_update_tips ?a \<le> 0"
    by (simp_all add: fetch_ok_env_def)
  have a': "fe_connect ?a \<noteq> GIT_OK" "fe_connect ?a = - 1"
    by (simp_all add: GIT_OK_def)
  have b: "fe_connect fetch_ok_env \<le> 0" "fe_download fetch_ok_env \<le> 0"
    "fe_update_tips fetch_ok_env \<le> 0"
    by (simp_all add: fetch_ok_env_def)
  have b': "fe_connect fetch_ok_env = GIT_OK"
    "no_faults [] \<and> fe_download fetch_ok_env = GIT_OK \<and> fe_update_tips fetch_ok_env = GIT_OK \<and>
       received_bytes (fe_stats fetch_ok_env) < 2 ^ 63"
    by (simp_all add: fetch_ok_env_def GIT_OK_def no_faults_def)
  have bs: "uint (indexed_objects (fe_stats fetch_ok_env)) = 3"
    "uint (received_objects (fe_stats fetch_ok_env)) = 4"
    "uint (received_bytes (fe_stats fetch_ok_env)) = 512"
    by (simp_all add: fetch_ok_env_def)
  have e: "fe_connect fetch_huge_env \<le> 0" "fe_download fetch_huge_env \<le> 0"
    "fe_update_tips fetch_huge_env \<le> 0"
    by (simp_all add: fetch_huge_env_def)
  have e': "fe_connect fetch_huge_env = GIT_OK"
    "no_faults [] \<and> fe_download fetch_huge_env = GIT_OK \<and> fe_update_tips fetch_huge_env = GIT_OK"
    by (simp_all add: fetch_huge_env_def GIT_OK_def no_faults_def)
  have es: "uint (indexed_objects (fe_stats fetch_huge_env)) = 3"
    "uint (received_objects (fe_stats fetch_huge_env)) = 4"
    "sint (received_bytes (fe_stats fetch_huge_env)) = - 9223372036854775808"
    by (simp_all add: fetch_huge_env_def)
  have c: "fe_connect ?c \<le> 0" "fe_download ?c \<le> 0" "fe_update_tips ?c \<le> 0"
    by (simp_all add: fetch_ok_env_def)
  have c': "fe_connect ?c = GIT_OK" "fe_download ?c \<noteq> GIT_OK" "fe_download ?c = - 1"
    by (simp_all add: fetch_ok_env_def GIT_OK_def)
  have d: "fe_connect ?d \<le> 0" "fe_download ?d \<le> 0" "fe_update_tips ?d \<le> 0"
    by (simp_all add: fetch_ok_env_def)
  have d': "fe_connect ?d = GIT_OK" "fe_download ?d = GIT_OK \<and> fe_update_tips ?d \<noteq> GIT_OK"
    "fe_update_tips ?d = - 3"
    by (simp_all add: fetch_ok_env_def GIT_OK_def)
  from fetch_outcome[OF a, of "[]"] a'(1) have "Remote_fetch ?a [] =
     \<lparr>lib_calls = [Connect GIT_DIRECTION_FETCH], returned = None, raised = Some (ErrorSet (fe_connect ?a))\<rparr>"
    by blast
  with a'(2) have ra: "Remote_fetch ?a [] =
     \<lparr>lib_calls = [Connect GIT_DIRECTION_FETCH], returned = None, raised = Some (ErrorSet (- 1))\<rparr>"
    by simp
  from fetch_outcome[OF b, of "[]"] b'
  have "returned (Remote_fetch fetch_ok_env []) =
      Some \<lparr>py_indexed_objects = uint (indexed_objects (fe_stats fetch_ok_env)),
            py_received_objects = uint (received_objects (fe_stats fetch_ok_env)),
            py_received_bytes = uint (received_bytes (fe_stats fetch_ok_env))\<rparr>"
    and rb2: "raised (Remote_fetch fetch_ok_env []) = None"
    by blast+
  then have rb1: "returned (Remote_fetch fetch_ok_env []) =
      Some \<lparr>py_indexed_objects = 3, py_received_objects = 4, py_received_bytes = 512\<rparr>"
    by (simp only: bs)
  from fetch_outcome[OF e, of "[]"] e'
  have "returned (Remote_fetch fetch_huge_env []) =
      Some \<lparr>py_indexed_objects = uint (indexed_objects (fe_stats fetch_huge_env)),
            py_received_objects = uint (received_objects (fe_stats fetch_huge_env)),
            py_received_bytes = sint (received_bytes (fe_stats fetch_huge_env))\<rparr>"
    by blast
  then have re: "returned (Remote_fetch fetch_huge_env []) =
      Some \<lparr>py_indexed_objects = 3, py_received_objects = 4,
            py_received_bytes = - 9223372036854775808\<rparr>"
    by (simp only: es)
  from fetch_outcome[OF c, of "[]"] c'(1,2)
  have rc: "returned (Remote_fetch ?c []) = None"
    "raised (Remote_fetch ?c []) = Some (ErrorSet (fe_download ?c))"
    "last (lib_calls (Remote_fetch ?c [])) = Disconnect"
    by blast+
  from fetch_outcome[OF d, of "[]"] d'(1,2)
  have rd: "returned (Remote_fetch ?d []) = None"
    "raised (Remote_fetch ?d []) = Some (ErrorSet (fe_update_tips ?d))"
    "last (lib_calls (Remote_fetch ?d [])) = Disconnect"
    by blast+
  from ra rb1 rb2 re rc rd c'(3) d'(3) show ?thesis by simp
qed

text \<open>
  C5. In fetch and in push alike: once the connect step has succeeded, disconnect is called
  exactly once and is the last library call before the method returns, whatever happened
  in between; when connect failed, or was never reached because the arguments were
  refused, disconnect is not called.
\<close>

theorem disconnect_discipline:
  "(fe_connect fenv = GIT_OK \<longrightarrow>
      count_list (lib_calls (Remote_fetch fenv fs)) Disconnect = 1 \<and>
      last (lib_calls (Remote_fetch fenv fs)) = Disconnect) \<and>
   (fe_connect fenv \<noteq> GIT_OK \<longrightarrow> Disconnect \<notin> set (lib_calls (Remote_fetch fenv fs))) \<and>
   (Connect GIT_DIRECTION_PUSH \<in> set (lib_calls (Remote_push penv gs args)) \<and> pe_connect penv = GIT_OK \<longrightarrow>
      count_list (lib_calls (Remote_push penv gs args)) Disconnect = 1 \<and>
      last (lib_calls (Remote_push penv gs args)) = Disconnect) \<and>
   (\<not> (Connect GIT_DIRECTION_PUSH \<in> set (lib_calls (Remote_push penv gs args)) \<and> pe_connect penv = GIT_OK) \<longrightarrow>
      Disconnect \<notin> set (lib_calls (Remote_push penv gs args)))"
  using fetch_disconnect[of fenv fs] push_disconnect[of penv gs args] by blast

theorem disconnect_discipline_witness:
  "count_list (lib_calls (Remote_fetch fetch_ok_env [])) Disconnect = 1 \<and>
   last (lib_calls (Remote_fetch fetch_ok_env [])) = Disconnect \<and>
   Disconnect \<notin> set (lib_calls (Remote_fetch (fetch_ok_env\<lparr>fe_connect := - 1\<rparr>) [])) \<and>
   count_list (lib_calls (Remote_push push_ok_env [None, None, Some MemoryError]
       [PyList (map PyString two_refspecs)])) Disconnect = 1 \<and>
   last (lib_calls (Remote_push push_ok_env [None, None, Some MemoryError]
       [PyList (map PyString two_refspecs)])) = Disconnect \<and>
   Disconnect \<notin> set (lib_calls (Remote_push (push_ok_env\<lparr>pe_connect := - 1\<rparr>) []
       [PyList (map PyString two_refspecs)])) \<and>
   Disconnect \<notin> set (lib_calls (Remote_push push_ok_env [] [PyInt 7]))"
proof -
  have f1: "fe_connect fetch_ok_env = GIT_OK"
    by (simp add: fetch_ok_env_def GIT_OK_def)
  have f2: "fe_connect (fetch_ok_env\<lparr>fe_connect := - 1\<rparr>) \<noteq> GIT_OK"
    by (simp add: GIT_OK_def)
  have run: "lib_calls (Remote_push push_ok_env [None, None, Some MemoryError]
       [PyList (map PyString two_refspecs)]) =
     [Connect GIT_DIRECTION_PUSH, PushNew, AddRefspec ''refs/heads/a'', AddRefspec ''refs/heads/x'',
      PushFinish, UnpackOk, StatusForeach, PushFree, Disconnect]"
    by (simp add: Remote_push_def PySequence_Fast_def PyString_AsString_def push_finish_def
        push_foreach_cb_def host_call_def push_return_def push_ok_env_def two_refspecs_def
        GIT_OK_def GIT_EUSER_def GIT_ERROR_def Let_def)
  have p1: "Connect GIT_DIRECTION_PUSH \<in> set (lib_calls (Remote_push push_ok_env
       [None, None, Some MemoryError] [PyList (map PyString two_refspecs)])) \<and>
     pe_connect push_ok_env = GIT_OK"
    by (simp add: run) (simp add: push_ok_env_def GIT_OK_def)
  have p2: "\<not> (Connect GIT_DIRECTION_PUSH \<in> set (lib_calls (Remote_push
       (push_ok_env\<lparr>pe_connect := - 1\<rparr>) [] [PyList (map PyString two_refspecs)])) \<and>
     pe_connect (push_ok_env\<lparr>pe_connect := - 1\<rparr>) = GIT_OK)"
    by (simp add: GIT_OK_def)
  have p3: "\<not> (Connect GIT_DIRECTION_PUSH \<in> set (lib_calls (Remote_push push_ok_env [] [PyInt 7])) \<and>
     pe_connect push_ok_env = GIT_OK)"
    by (simp add: Remote_push_def PySequence_Fast_def)
  from disconnect_discipline[of fetch_ok_env "[]" push_ok_env "[None, None, Some MemoryError]"
      "[PyList (map PyString two_refspecs)]"] f1 p1
  have a: "count_list (lib_calls (Remote_fetch fetch_ok_env [])) Disconnect = 1"
    "last (lib_calls (Remote_fetch fetch_ok_env [])) = Disconnect"
    "count_list (lib_calls (Remote_push push_ok_env [None, None, Some MemoryError]
       [PyList (map PyString two_refspecs)])) Disconnect = 1"
    "last (lib_calls (Remote_push push_ok_env [None, None, Some MemoryError]
       [PyList (map PyString two_refspecs)])) = Disconnect"
    by blast+
  from disconnect_discipline[of "fetch_ok_env\<lparr>fe_connect := - 1\<rparr>" "[]"
      "push_ok_env\<lparr>pe_connect := - 1\<rparr>" "[]" "[PyList (map PyString two_refspecs)]"] f2 p2
  have b: "Disconnect \<notin> set (lib_calls (Remote_fetch (fetch_ok_env\<lparr>fe_connect := - 1\<rparr>) []))"
    "Disconnect \<notin> set (lib_calls (Remote_push (push_ok_env\<lparr>pe_connect := - 1\<rparr>) []
       [PyList (map PyString two_refspecs)]))"
    by blast+
  from disconnect_discipline[of fetch_ok_env "[]" push_ok_env "[]" "[PyInt 7]"] p3
  have c: "Disconnect \<notin> set (lib_calls (Remote_push push_ok_env [] [PyInt 7]))"
    by blast
  from a b c show ?thesis by blast
qed

text \<open>
  C10. When the loop over the refspecs reaches an element that is not a string (the connect
  and the new push batch succeeded and every refspec before it was added), the conversion
  raises \<^verbatim>\<open>TypeError\<close>, no refspec after that element is added and the batch is not
  finished, the pending \<^verbatim>\<open>TypeError\<close> is what the caller sees, and the batch is freed
  and the remote disconnected before the method returns.
\<close>

theorem push_non_string_refspec:
  assumes "pe_connect env = GIT_OK" and "pe_push_new env = GIT_OK"
    and "\<forall>i < length pre. pe_add_refspec env i (pre ! i) = GIT_OK"
    and "\<forall>s. bad \<noteq> PyString s"
    and "ob = PyList (map PyString pre @ bad # post) \<or> ob = PyTuple (map PyString pre @ bad # post)"
  shows "Remote_push env fs [ob] =
           \<lparr>lib_calls = [Connect GIT_DIRECTION_PUSH, PushNew] @ map AddRefspec pre @ [PushFree, Disconnect],
            returned = None, raised = Some TypeError\<rparr>"
  using assms by (rule push_bad_item)

theorem push_non_string_refspec_witness:
  "Remote_push push_ok_env [] [PyList [PyString ''refs/heads/a'', PyInt 7, PyString ''refs/heads/x'']] =
     \<lparr>lib_calls = [Connect GIT_DIRECTION_PUSH, PushNew, AddRefspec ''refs/heads/a'', PushFree, Disconnect],
      returned = None, raised = Some TypeError\<rparr>"
proof -
  have 1: "pe_connect push_ok_env = GIT_OK" and 2: "pe_push_new push_ok_env = GIT_OK"
    by (simp_all add: push_ok_env_def GIT_OK_def)
  have 3: "\<forall>i < length [''refs/heads/a'']. pe_add_refspec push_ok_env i ([''refs/heads/a''] ! i) = GIT_OK"
    by (simp add: push_ok_env_def GIT_OK_def)
  have 4: "\<forall>s. PyInt 7 \<noteq> PyString s" by simp
  have 5: "PyList [PyString ''refs/heads/a'', PyInt 7, PyString ''refs/heads/x''] =
             PyList (map PyString [''refs/heads/a''] @ PyInt 7 # [PyString ''refs/heads/x'']) \<or>
           PyList [PyString ''refs/heads/a'', PyInt 7, PyString ''refs/heads/x''] =
             PyTuple (map PyString [''refs/heads/a''] @ PyInt 7 # [PyString ''refs/heads/x''])"
    by simp
  from push_non_string_refspec[OF 1 2 3 4 5, of "[]"] show ?thesis by simp
qed

text \<open>
  C1, at the input where it fails: the server acknowledges the unpack and rejects both
  branches with a message, and the append of the first entry fails in the host. The push
  returns its list through the branch of success, and the list holds one entry where two
  callbacks had a message. The defect is the one of C3.
\<close>

theorem push_report_misses_entry:
  "returned (Remote_push push_rejected_env [None, None, None, None, Some MemoryError]
       [PyList (map PyString two_refspecs)]) = Some [(''refs/heads/x'', ''non-fast-forward'')] \<and>
   expected_report (pe_status push_rejected_env) =
     [(''refs/heads/a'', ''denied''), (''refs/heads/x'', ''non-fast-forward'')] \<and>
   pe_finish push_rejected_env = GIT_OK \<and> pe_unpack_ok push_rejected_env \<noteq> 0"
proof -
  have "Remote_push push_rejected_env [None, None, None, None, Some MemoryError]
       [PyList (map PyString two_refspecs)] =
     \<lparr>lib_calls = [Connect GIT_DIRECTION_PUSH, PushNew, AddRefspec ''refs/heads/a'',
                   AddRefspec ''refs/heads/x'', PushFinish, UnpackOk, StatusForeach, PushUpdateTips,
                   PushFree, Disconnect],
      returned = Some [(''refs/heads/x'', ''non-fast-forward'')], raised = Some MemoryError\<rparr>"
    by (simp add: Remote_push_def PySequence_Fast_def PyString_AsString_def push_finish_def
        push_foreach_cb_def host_call_def push_return_def push_rejected_env_def push_ok_env_def
        two_refspecs_def GIT_OK_def GIT_EUSER_def GIT_ERROR_def Let_def)
  then show ?thesis
    by (simp add: push_rejected_env_def push_ok_env_def GIT_OK_def)
qed

text \<open>
  C2, at the input where it fails: every step up to finish succeeds and the server does not
  acknowledge the unpack. The method returns \<^verbatim>\<open>NULL\<close> with no exception set: neither a
  report nor an error.
\<close>

theorem push_unpack_failure_unreported:
  "Remote_push (push_ok_env\<lparr>pe_unpack_ok := 0\<rparr>) [] [PyList (map PyString two_refspecs)] =
     \<lparr>lib_calls = [Connect GIT_DIRECTION_PUSH, PushNew, AddRefspec ''refs/heads/a'',
                   AddRefspec ''refs/heads/x'', PushFinish, UnpackOk, PushFree, Disconnect],
      returned = None, raised = None\<rparr>"
  by (simp add: Remote_push_def PySequence_Fast_def PyString_AsString_def push_finish_def
      push_return_def push_ok_env_def two_refspecs_def GIT_OK_def GIT_EUSER_def Let_def)

text \<open>
  C3, at the input where it fails: the server rejects both branches, the list is created,
  the first callback builds its entry and the append fails with \<^verbatim>\<open>MemoryError\<close>. The
  callback still answers \<^verbatim>\<open>GIT_OK\<close>: the second callback runs and appends its entry, the
  tips are updated, and the list comes back without the first entry, the exception still
  pending.
\<close>

theorem push_append_failure_ignored:
  "Remote_push push_rejected_env [None, None, None, None, Some MemoryError]
       [PyList (map PyString two_refspecs)] =
     \<lparr>lib_calls = [Connect GIT_DIRECTION_PUSH, PushNew, AddRefspec ''refs/heads/a'',
                   AddRefspec ''refs/heads/x'', PushFinish, UnpackOk, StatusForeach, PushUpdateTips,
                   PushFree, Disconnect],
      returned = Some [(''refs/heads/x'', ''non-fast-forward'')], raised = Some MemoryError\<rparr>"
  by (simp add: Remote_push_def PySequence_Fast_def PyString_AsString_def push_finish_def
      push_foreach_cb_def host_call_def push_return_def push_rejected_env_def push_ok_env_def
      two_refspecs_def GIT_OK_def GIT_EUSER_def GIT_ERROR_def Let_def)

text \<open>
  The sibling paths of the callback do abort: when the tuple of the first callback cannot
  be allocated the iteration stops with \<^verbatim>\<open>GIT_EUSER\<close>, the tips are not updated and the
  pending exception reaches the caller.
\<close>

lemma push_tuple_failure_propagates:
  "Remote_push push_rejected_env [None, None, None, Some MemoryError]
       [PyList (map PyString two_refspecs)] =
     \<lparr>lib_calls = [Connect GIT_DIRECTION_PUSH, PushNew, AddRefspec ''refs/heads/a'',
                   AddRefspec ''refs/heads/x'', PushFinish, UnpackOk, StatusForeach,
                   PushFree, Disconnect],
      returned = None, raised = Some MemoryError\<rparr>"
  by (simp add: Remote_push_def PySequence_Fast_def PyString_AsString_def push_finish_def
      push_foreach_cb_def host_call_def push_return_def push_rejected_env_def push_ok_env_def
      two_refspecs_def GIT_OK_def GIT_EUSER_def GIT_ERROR_def Let_def)

section \<open>The claims about refspecs\<close>

text \<open>
  C6, at the input where it fails: both strings empty. The setter has no test for an empty
  string; it builds \<^verbatim>\<open>"+:"\<close>, the library takes it, and the setter answers 0.
\<close>

theorem fetchspec_set_accepts_empty:
  "Remote_fetchspec_set git_remote_set_fetchspec bare_remote (PyTuple [PyString [], PyString []])
       quiet_host =
     (0, \<lparr>remote_fetch = Some \<lparr>rs_string = ''+:'', rs_src = [], rs_dst = [], rs_force = True,
                                rs_push = False\<rparr>\<rparr>, quiet_host)"
  by (simp add: Remote_fetchspec_set_def parse_tuple_ss_def calloc_def git_remote_set_fetchspec_def
      git_refspec_parse_def bare_remote_def quiet_host_def GIT_OK_def)

text \<open>
  C6, amended. Whatever the library answers: when the setter succeeds on the strings \<open>s\<close>
  and \<open>d\<close>, the library was handed exactly \<^verbatim>\<open>+s:d\<close> and accepted it, the remote is the
  one the library left, and the getter returns the source and the destination of the
  remote's refspec; when the library rejects \<^verbatim>\<open>+s:d\<close>, the setter answers -1 with
  \<^verbatim>\<open>ValueError\<close> raised. With the library's parser: after a successful set the remote
  holds a refspec whose string is \<^verbatim>\<open>+s:d\<close> and whose force flag is set, and the getter
  returns the pair \<open>(s, d)\<close>. The setter itself puts no condition on empty strings.
\<close>

theorem fetchspec_set_then_get:
  "(Remote_fetchspec_set lib remote (PyTuple [PyString s, PyString d]) h = (0, remote', h') \<longrightarrow>
      lib remote (''+'' @ s @ '':'' @ d) = (GIT_OK, remote') \<and>
      (\<forall>r. remote_fetch remote' = Some r \<and> no_faults (faults h') \<longrightarrow>
           fst (Remote_fetchspec_get remote' h') =
             Some (PyTuple [PyString (rs_src r), PyString (rs_dst r)]))) \<and>
   (Remote_fetchspec_set git_remote_set_fetchspec remote (PyTuple [PyString s, PyString d]) h =
      (0, remote', h') \<longrightarrow>
      (\<exists>r. remote_fetch remote' = Some r \<and> rs_string r = ''+'' @ s @ '':'' @ d \<and>
           Refspec_is_forced_get r \<and>
           (no_faults (faults h') \<longrightarrow>
              fst (Remote_fetchspec_get remote' h') = Some (PyTuple [PyString s, PyString d])))) \<and>
   (c_string s \<and> c_string d \<and> no_faults (faults h) \<and>
    fst (lib remote (''+'' @ s @ '':'' @ d)) \<noteq> GIT_OK \<longrightarrow>
      fst (Remote_fetchspec_set lib remote (PyTuple [PyString s, PyString d]) h) = - 1 \<and>
      pending (snd (snd (Remote_fetchspec_set lib remote (PyTuple [PyString s, PyString d]) h))) =
        Some (ErrorSetExc ValueError))"
proof (intro conjI impI allI)
  assume ok: "Remote_fetchspec_set lib remote (PyTuple [PyString s, PyString d]) h = (0, remote', h')"
  then show "lib remote (''+'' @ s @ '':'' @ d) = (GIT_OK, remote')"
    by (rule set_handed)
next
  fix r
  assume "remote_fetch remote' = Some r \<and> no_faults (faults h')"
  then show "fst (Remote_fetchspec_get remote' h') =
      Some (PyTuple [PyString (rs_src r), PyString (rs_dst r)])"
    using get_stored[of remote' r h'] by blast
next
  assume ok: "Remote_fetchspec_set git_remote_set_fetchspec remote (PyTuple [PyString s, PyString d]) h =
      (0, remote', h')"
  let ?r = "\<lparr>rs_string = ''+'' @ s @ '':'' @ d, rs_src = s, rs_dst = d, rs_force = True,
             rs_push = False\<rparr>"
  from set_success[OF ok] have st: "remote_fetch remote' = Some ?r" .
  have "no_faults (faults h') \<longrightarrow>
          fst (Remote_fetchspec_get remote' h') = Some (PyTuple [PyString s, PyString d])"
    using get_stored[OF st, of h'] by simp
  with st show "\<exists>r. remote_fetch remote' = Some r \<and> rs_string r = ''+'' @ s @ '':'' @ d \<and>
           Refspec_is_forced_get r \<and>
           (no_faults (faults h') \<longrightarrow>
              fst (Remote_fetchspec_get remote' h') = Some (PyTuple [PyString s, PyString d]))"
    by (intro exI[of _ ?r]) (simp add: Refspec_is_forced_get_def)
next
  assume rej: "c_string s \<and> c_string d \<and> no_faults (faults h) \<and>
    fst (lib remote (''+'' @ s @ '':'' @ d)) \<noteq> GIT_OK"
  then show "fst (Remote_fetchspec_set lib remote (PyTuple [PyString s, PyString d]) h) = - 1"
    using set_rejected[of s d h lib remote] by blast
  from rej show "pending (snd (snd (Remote_fetchspec_set lib remote (PyTuple [PyString s, PyString d]) h))) =
        Some (ErrorSetExc ValueError)"
    using set_rejected[of s d h lib remote] by blast
qed

theorem fetchspec_set_then_get_witness:
  "fst (Remote_fetchspec_get
          (fst (snd (Remote_fetchspec_set git_remote_set_fetchspec bare_remote
             (PyTuple [PyString ''refs/heads/*'', PyString ''refs/remotes/origin/*'']) quiet_host)))
          quiet_host) =
     Some (PyTuple [PyString ''refs/heads/*'', PyString ''refs/remotes/origin/*'']) \<and>
   git_remote_set_fetchspec bare_remote ''+refs/heads/*:refs/remotes/origin/*'' =
     (GIT_OK, \<lparr>remote_fetch = Some origin_refspec\<rparr>) \<and>
   fst (Remote_fetchspec_set git_remote_set_fetchspec bare_remote
          (PyTuple [PyString ''a:b'', PyString ''c'']) quiet_host) = - 1 \<and>
   pending (snd (snd (Remote_fetchspec_set git_remote_set_fetchspec bare_remote
          (PyTuple [PyString ''a:b'', PyString ''c'']) quiet_host))) = Some (ErrorSetExc ValueError)"
proof -
  let ?s = "''refs/heads/*''" and ?d = "''refs/remotes/origin/*''"
  let ?stored = "\<lparr>remote_fetch = Some origin_refspec\<rparr>"
  let ?lib = git_remote_set_fetchspec
  have run: "Remote_fetchspec_set ?lib bare_remote (PyTuple [PyString ?s, PyString ?d]) quiet_host =
      (0, ?stored, quiet_host)"
    by (simp add: Remote_fetchspec_set_def parse_tuple_ss_def calloc_def git_remote_set_fetchspec_def
        git_refspec_parse_def bare_remote_def quiet_host_def origin_refspec_def GIT_OK_def)
  have nf: "no_faults (faults quiet_host)"
    by (simp add: quiet_host_def no_faults_def)
  have st: "remote_fetch ?stored = Some origin_refspec \<and> no_faults (faults quiet_host)"
    using nf by simp
  note inst = fetchspec_set_then_get[of ?lib bare_remote ?s ?d quiet_host ?stored quiet_host]
  from inst run have handed: "?lib bare_remote (''+'' @ ?s @ '':'' @ ?d) = (GIT_OK, ?stored)"
    by blast
  from inst run nf
  have "fst (Remote_fetchspec_get ?stored quiet_host) = Some (PyTuple [PyString ?s, PyString ?d])"
    by blast
  with run have 1: "fst (Remote_fetchspec_get
          (fst (snd (Remote_fetchspec_set ?lib bare_remote (PyTuple [PyString ?s, PyString ?d]) quiet_host)))
          quiet_host) = Some (PyTuple [PyString ?s, PyString ?d])"
    by simp
  have rej: "c_string ''a:b'' \<and> c_string ''c'' \<and> no_faults (faults quiet_host) \<and>
      fst (?lib bare_remote (''+'' @ ''a:b'' @ '':'' @ ''c'')) \<noteq> GIT_OK"
    by (simp add: c_string_def nf git_remote_set_fetchspec_def git_refspec_parse_def GIT_OK_def
        GIT_ERROR_def)
  from fetchspec_set_then_get[of ?lib bare_remote "''a:b''" "''c''" quiet_host bare_remote quiet_host] rej
  have 2: "fst (Remote_fetchspec_set ?lib bare_remote (PyTuple [PyString ''a:b'', PyString ''c''])
      quiet_host) = - 1"
    and 3: "pending (snd (snd (Remote_fetchspec_set ?lib bare_remote
      (PyTuple [PyString ''a:b'', PyString ''c'']) quiet_host))) = Some (ErrorSetExc ValueError)"
    by blast+
  from handed have 4: "?lib bare_remote ''+refs/heads/*:refs/remotes/origin/*'' = (GIT_OK, ?stored)"
    by simp
  from 1 2 3 4 show ?thesis by blast
qed

text \<open>
  When the buffer for the encoded form cannot be allocated, the setter answers -1 and
  raises nothing.
\<close>

lemma fetchspec_set_without_buffer:
  "Remote_fetchspec_set git_remote_set_fetchspec bare_remote
       (PyTuple [PyString ''refs/heads/*'', PyString ''refs/remotes/origin/*''])
       \<lparr>pending = None, faults = [Some MemoryError]\<rparr> =
     (- 1, bare_remote, quiet_host)"
  by (simp add: Remote_fetchspec_set_def parse_tuple_ss_def calloc_def quiet_host_def)




text \<open>
  C8. A refspec that the parser accepted reads back through the accessors as the string it
  was parsed from, and that string is the force mark, the source, a colon and the
  destination. In particular the well-formed string made of a force flag \<open>f\<close>, a source
  pattern \<open>S\<close> and a destination pattern \<open>D\<close> (neither holding a colon, \<open>S\<close> not
  starting with the force mark) is accepted and gives source \<open>S\<close>, destination \<open>D\<close>,
  force flag \<open>f\<close> and the string itself. The host calls are taken to succeed.
\<close>

theorem refspec_accessors_canonical:
  "(git_refspec_parse is_fetch input = Some r \<and> no_faults (faults h) \<longrightarrow>
      fst (Refspec_string_get r h) = Some input \<and>
      fst (Refspec_string_get r h) =
        Some ((if Refspec_is_forced_get r then ''+'' else []) @ the (fst (Refspec_source_get r h)) @
              '':'' @ the (fst (Refspec_destination_get r h)))) \<and>
   (CHR '':'' \<notin> set S \<and> CHR '':'' \<notin> set D \<and> (\<forall>t. S \<noteq> CHR ''+'' # t) \<and> no_faults (faults h) \<longrightarrow>
      (\<exists>R. git_refspec_parse is_fetch ((if f then ''+'' else []) @ S @ '':'' @ D) = Some R \<and>
           fst (Refspec_source_get R h) = Some S \<and>
           fst (Refspec_destination_get R h) = Some D \<and>
           Refspec_is_forced_get R = f \<and>
           fst (Refspec_string_get R h) =
             Some ((if Refspec_is_forced_get R then ''+'' else []) @ S @ '':'' @ D)))"
proof (intro conjI impI)
  assume a: "git_refspec_parse is_fetch input = Some r \<and> no_faults (faults h)"
  then obtain h1 where hc: "host_call h = (True, h1)" using host_call_succeeds by blast
  from a parse_canonical[of is_fetch input r]
  have c: "rs_string r = input"
    "input = (if rs_force r then ''+'' else []) @ rs_src r @ '':'' @ rs_dst r" by blast+
  from hc c(1) show "fst (Refspec_string_get r h) = Some input"
    by (simp add: Refspec_string_get_def to_unicode_def)
  from hc c show "fst (Refspec_string_get r h) =
        Some ((if Refspec_is_forced_get r then ''+'' else []) @ the (fst (Refspec_source_get r h)) @
              '':'' @ the (fst (Refspec_destination_get r h)))"
    by (simp add: Refspec_string_get_def Refspec_source_get_def Refspec_destination_get_def
        Refspec_is_forced_get_def to_unicode_def)
next
  assume a: "CHR '':'' \<notin> set S \<and> CHR '':'' \<notin> set D \<and> (\<forall>t. S \<noteq> CHR ''+'' # t) \<and> no_faults (faults h)"
  then obtain h1 where hc: "host_call h = (True, h1)" using host_call_succeeds by blast
  let ?R = "\<lparr>rs_string = (if f then ''+'' else []) @ S @ '':'' @ D, rs_src = S, rs_dst = D,
             rs_force = f, rs_push = (\<not> is_fetch)\<rparr>"
  have p: "git_refspec_parse is_fetch ((if f then ''+'' else []) @ S @ '':'' @ D) = Some ?R"
  proof (cases f)
    case True
    with a show ?thesis using parse_forced[of is_fetch S D] by simp
  next
    case False
    with a show ?thesis using parse_plain[of S D is_fetch] by simp
  qed
  show "\<exists>R. git_refspec_parse is_fetch ((if f then ''+'' else []) @ S @ '':'' @ D) = Some R \<and>
           fst (Refspec_source_get R h) = Some S \<and>
           fst (Refspec_destination_get R h) = Some D \<and>
           Refspec_is_forced_get R = f \<and>
           fst (Refspec_string_get R h) =
             Some ((if Refspec_is_forced_get R then ''+'' else []) @ S @ '':'' @ D)"
    using p hc
    by (intro exI[of _ ?R])
      (simp add: Refspec_string_get_def Refspec_source_get_def Refspec_destination_get_def
        Refspec_is_forced_get_def to_unicode_def)
qed

theorem refspec_accessors_canonical_witness:
  "git_refspec_parse True ''+refs/heads/*:refs/remotes/origin/*'' = Some origin_refspec \<and>
   fst (Refspec_string_get origin_refspec quiet_host) = Some ''+refs/heads/*:refs/remotes/origin/*'' \<and>
   fst (Refspec_source_get origin_refspec quiet_host) = Some ''refs/heads/*'' \<and>
   fst (Refspec_destination_get origin_refspec quiet_host) = Some ''refs/remotes/origin/*'' \<and>
   Refspec_is_forced_get origin_refspec"
proof -
  let ?S = "''refs/heads/*''" and ?D = "''refs/remotes/origin/*''"
  have p: "git_refspec_parse True ''+refs/heads/*:refs/remotes/origin/*'' = Some origin_refspec"
    by (simp add: git_refspec_parse_def origin_refspec_def)
  have nf: "no_faults (faults quiet_host)"
    by (simp add: quiet_host_def no_faults_def)
  have wf: "CHR '':'' \<notin> set ?S \<and> CHR '':'' \<notin> set ?D \<and> (\<forall>t. ?S \<noteq> CHR ''+'' # t) \<and>
      no_faults (faults quiet_host)"
    using nf by simp
  note inst = refspec_accessors_canonical[of True "''+refs/heads/*:refs/remotes/origin/*''"
      origin_refspec quiet_host ?S ?D True]
  from inst p nf
  have s: "fst (Refspec_string_get origin_refspec quiet_host) = Some ''+refs/heads/*:refs/remotes/origin/*''"
    by blast
  from inst wf obtain R where
    R: "git_refspec_parse True ((if True then ''+'' else []) @ ?S @ '':'' @ ?D) = Some R"
    and acc: "fst (Refspec_source_get R quiet_host) = Some ?S"
      "fst (Refspec_destination_get R quiet_host) = Some ?D"
      "Refspec_is_forced_get R = True"
    by blast
  from R p have "R = origin_refspec" by simp
  with acc p s show ?thesis by simp
qed

text \<open>
  C9. Whatever the library does: whenever \<^verbatim>\<open>transform\<close> allocates its output buffer, the
  size is the length of the destination pattern plus the length of the name plus one, and
  for \<^verbatim>\<open>rtransform\<close> the length of the source pattern plus the length of the name plus
  one; and when the library's result is no longer than the pattern and the name together
  (the worst case of a wildcard expansion), what is written (the result and its
  terminator) fits in the buffer. With the library's transform: for a name that matches,
  the allocation has that size, the transform returns its result, and the result fits.
\<close>

theorem transform_buffer_size:
  "(tf_outlen (Refspec_transform lib r py_name h) = Some n \<longrightarrow>
      (\<exists>s. py_name = PyString s \<and> n = length (rs_dst r) + length (c_str s) + 1)) \<and>
   (tf_outlen (Refspec_rtransform lib r py_name h) = Some n \<longrightarrow>
      (\<exists>s. py_name = PyString s \<and> n = length (rs_src r) + length (c_str s) + 1)) \<and>
   (tf_outlen (Refspec_transform lib r (PyString s) h) = Some n \<and>
    length (snd (lib n r (c_str s))) \<le> length (rs_dst r) + length (c_str s) \<longrightarrow>
      tf_written (Refspec_transform lib r (PyString s) h) \<le> n) \<and>
   (tf_outlen (Refspec_rtransform lib r (PyString s) h) = Some n \<and>
    length (snd (lib n r (c_str s))) \<le> length (rs_src r) + length (c_str s) \<longrightarrow>
      tf_written (Refspec_rtransform lib r (PyString s) h) \<le> n) \<and>
   (no_faults (faults h) \<and> c_string s \<and> pattern_matches (rs_src r) s \<longrightarrow>
      tf_outlen (Refspec_transform git_refspec_transform r (PyString s) h) =
        Some (length (rs_dst r) + length s + 1) \<and>
      tf_returned (Refspec_transform git_refspec_transform r (PyString s) h) \<noteq> None \<and>
      \<not> tf_crashed (Refspec_transform git_refspec_transform r (PyString s) h) \<and>
      tf_written (Refspec_transform git_refspec_transform r (PyString s) h) \<le>
        length (rs_dst r) + length s + 1) \<and>
   (no_faults (faults h) \<and> c_string s \<and> pattern_matches (rs_dst r) s \<longrightarrow>
      tf_outlen (Refspec_rtransform git_refspec_rtransform r (PyString s) h) =
        Some (length (rs_src r) + length s + 1) \<and>
      tf_returned (Refspec_rtransform git_refspec_rtransform r (PyString s) h) \<noteq> None \<and>
      \<not> tf_crashed (Refspec_rtransform git_refspec_rtransform r (PyString s) h) \<and>
      tf_written (Refspec_rtransform git_refspec_rtransform r (PyString s) h) \<le>
        length (rs_src r) + length s + 1)"
proof (intro conjI)
  show "tf_outlen (Refspec_transform lib r py_name h) = Some n \<longrightarrow>
      (\<exists>s. py_name = PyString s \<and> n = length (rs_dst r) + length (c_str s) + 1)"
    unfolding Refspec_transform_def using transform_body_outlen by blast
  show "tf_outlen (Refspec_rtransform lib r py_name h) = Some n \<longrightarrow>
      (\<exists>s. py_name = PyString s \<and> n = length (rs_src r) + length (c_str s) + 1)"
    unfolding Refspec_rtransform_def using transform_body_outlen by blast
  show "tf_outlen (Refspec_transform lib r (PyString s) h) = Some n \<and>
    length (snd (lib n r (c_str s))) \<le> length (rs_dst r) + length (c_str s) \<longrightarrow>
      tf_written (Refspec_transform lib r (PyString s) h) \<le> n"
    unfolding Refspec_transform_def using transform_body_written by blast
  show "tf_outlen (Refspec_rtransform lib r (PyString s) h) = Some n \<and>
    length (snd (lib n r (c_str s))) \<le> length (rs_src r) + length (c_str s) \<longrightarrow>
      tf_written (Refspec_rtransform lib r (PyString s) h) \<le> n"
    unfolding Refspec_rtransform_def using transform_body_written by blast
  show "no_faults (faults h) \<and> c_string s \<and> pattern_matches (rs_src r) s \<longrightarrow>
      tf_outlen (Refspec_transform git_refspec_transform r (PyString s) h) =
        Some (length (rs_dst r) + length s + 1) \<and>
      tf_returned (Refspec_transform git_refspec_transform r (PyString s) h) \<noteq> None \<and>
      \<not> tf_crashed (Refspec_transform git_refspec_transform r (PyString s) h) \<and>
      tf_written (Refspec_transform git_refspec_transform r (PyString s) h) \<le>
        length (rs_dst r) + length s + 1"
    using transform_fits[of h s r] by blast
  show "no_faults (faults h) \<and> c_string s \<and> pattern_matches (rs_dst r) s \<longrightarrow>
      tf_outlen (Refspec_rtransform git_refspec_rtransform r (PyString s) h) =
        Some (length (rs_src r) + length s + 1) \<and>
      tf_returned (Refspec_rtransform git_refspec_rtransform r (PyString s) h) \<noteq> None \<and>
      \<not> tf_crashed (Refspec_rtransform git_refspec_rtransform r (PyString s) h) \<and>
      tf_written (Refspec_rtransform git_refspec_rtransform r (PyString s) h) \<le>
        length (rs_src r) + length s + 1"
    using rtransform_fits[of h s r] by blast
qed

theorem transform_buffer_size_witness:
  "tf_outlen (Refspec_transform git_refspec_transform origin_refspec (PyString ''refs/heads/master'')
     quiet_host) = Some 39 \<and>
   tf_written (Refspec_transform git_refspec_transform origin_refspec (PyString ''refs/heads/master'')
     quiet_host) \<le> 39 \<and>
   tf_returned (Refspec_transform git_refspec_transform origin_refspec (PyString ''refs/heads/master'')
     quiet_host) \<noteq> None \<and>
   tf_outlen (Refspec_rtransform git_refspec_rtransform origin_refspec
     (PyString ''refs/remotes/origin/master'') quiet_host) = Some 39 \<and>
   tf_written (Refspec_rtransform git_refspec_rtransform origin_refspec
     (PyString ''refs/remotes/origin/master'') quiet_host) \<le> 39 \<and>
   tf_returned (Refspec_rtransform git_refspec_rtransform origin_refspec
     (PyString ''refs/remotes/origin/master'') quiet_host) \<noteq> None \<and>
   tf_written (Refspec_transform (\<lambda>outlen spec name. (0, ''refs/x'')) origin_refspec
     (PyString ''refs/heads/master'') quiet_host) \<le> 39"
proof -
  let ?a = "''refs/heads/master''" and ?b = "''refs/remotes/origin/master''"
  let ?lib = "\<lambda>(outlen :: nat) (spec :: git_refspec) (name :: string). (0 :: int, ''refs/x'')"
  have nf: "no_faults (faults quiet_host)"
    by (simp add: quiet_host_def no_faults_def)
  have ma: "no_faults (faults quiet_host) \<and> c_string ?a \<and> pattern_matches (rs_src origin_refspec) ?a"
    using nf by (simp add: c_string_def pattern_matches_def capture_def star_split_def origin_refspec_def)
  have mb: "no_faults (faults quiet_host) \<and> c_string ?b \<and> pattern_matches (rs_dst origin_refspec) ?b"
    using nf by (simp add: c_string_def pattern_matches_def capture_def star_split_def origin_refspec_def)
  have la: "length (rs_dst origin_refspec) + length ?a + 1 = 39"
    and lb: "length (rs_src origin_refspec) + length ?b + 1 = 39"
    by (simp_all add: origin_refspec_def)
  from transform_buffer_size[of git_refspec_transform origin_refspec "PyString ?a" quiet_host 39 ?a] ma
  have a: "tf_outlen (Refspec_transform git_refspec_transform origin_refspec (PyString ?a) quiet_host) =
        Some (length (rs_dst origin_refspec) + length ?a + 1)"
    "tf_returned (Refspec_transform git_refspec_transform origin_refspec (PyString ?a) quiet_host) \<noteq> None"
    "tf_written (Refspec_transform git_refspec_transform origin_refspec (PyString ?a) quiet_host) \<le>
        length (rs_dst origin_refspec) + length ?a + 1"
    by blast+
  from transform_buffer_size[of git_refspec_rtransform origin_refspec "PyString ?b" quiet_host 39 ?b] mb
  have b: "tf_outlen (Refspec_rtransform git_refspec_rtransform origin_refspec (PyString ?b) quiet_host) =
        Some (length (rs_src origin_refspec) + length ?b + 1)"
    "tf_returned (Refspec_rtransform git_refspec_rtransform origin_refspec (PyString ?b) quiet_host) \<noteq> None"
    "tf_written (Refspec_rtransform git_refspec_rtransform origin_refspec (PyString ?b) quiet_host) \<le>
        length (rs_src origin_refspec) + length ?b + 1"
    by blast+
  have run: "tf_outlen (Refspec_transform ?lib origin_refspec (PyString ?a) quiet_host) = Some 39"
    by (simp add: Refspec_transform_def transform_body_def py_path_to_c_str_def c_str_def host_call_def
        calloc_def to_unicode_def origin_refspec_def quiet_host_def)
  have short: "length (snd (?lib 39 origin_refspec (c_str ?a))) \<le>
      length (rs_dst origin_refspec) + length (c_str ?a)"
    by (simp add: c_str_def origin_refspec_def)
  from transform_buffer_size[of ?lib origin_refspec "PyString ?a" quiet_host 39 ?a] run short
  have c: "tf_written (Refspec_transform ?lib origin_refspec (PyString ?a) quiet_host) \<le> 39"
    by blast
  from a b c show ?thesis unfolding la lb by blast
qed

end
